theory Spec2Isabelle
  imports Main "HOL-Library.AList"
begin

section \<open>Python values and errors\<close>

text \<open>
  The operator is a Keras layer written in Python on top of TensorFlow. Every exception the
  source or a framework primitive can raise is a value of \<open>error\<close>; a computation that may
  raise returns \<open>error + 'a\<close> with \<open>Inl\<close> for the exception.
\<close>

datatype error = ValueError | TypeError | NameError | KeyError | IndexError | ZeroDivisionError

definition bind_err :: "error + 'a \<Rightarrow> ('a \<Rightarrow> error + 'b) \<Rightarrow> error + 'b" where
  "bind_err m f = (case m of Inl e \<Rightarrow> Inl e | Inr v \<Rightarrow> f v)"

text \<open>
  \<open>xs[i]\<close> of Python: a negative index counts from the end, an index outside the sequence
  raises \<open>IndexError\<close>.
\<close>

definition py_index :: "'a list \<Rightarrow> int \<Rightarrow> error + 'a" where
  "py_index xs i =
     (if 0 \<le> i \<and> i < int (length xs) then Inr (xs ! nat i)
      else if i < 0 \<and> - int (length xs) \<le> i then Inr (xs ! nat (int (length xs) + i))
      else Inl IndexError)"

text \<open>
  A Python value that is either an integer or a tuple of integers. The layer's
  \<open>kernel_size\<close> and \<open>strides\<close> attributes are tuples (the base class \<open>Conv1D\<close> normalises
  its arguments to 1-tuples; the source reads \<open>self.kernel_size[0]\<close> and concatenates
  \<open>self.strides * 2\<close>), and the framework helper \<open>conv_output_length\<close> does integer
  arithmetic on what it is given.
\<close>

datatype pyval = PyInt int | PyTuple "int list"

section \<open>Tensors and the TensorFlow primitives the layer calls\<close>

text \<open>
  A tensor is its shape and its cells, addressed by an index list. Cells are values of an
  arbitrary semiring: the arithmetic is exact, floating-point rounding is not modelled.
\<close>

datatype 'a tensor = Tensor (shape: "nat list") (elems: "nat list \<Rightarrow> 'a")

datatype padding = Valid | Same | Causal

datatype data_format = ChannelsFirst | ChannelsLast

datatype conv_data_format = NHWC | NCHW

text \<open>\<open>array_ops.pad\<close>: one (lo, hi) pair per axis, padded with zeros.\<close>

definition pad :: "'a::zero tensor \<Rightarrow> (nat \<times> nat) list \<Rightarrow> error + 'a tensor" where
  "pad t paddings =
     (if length paddings = length (shape t)
      then Inr (Tensor
        (map (\<lambda>(d, (lo, hi)). lo + d + hi) (zip (shape t) paddings))
        (\<lambda>idx. if list_all (\<lambda>(i, (d, (lo, hi))). lo \<le> i \<and> i < lo + d)
                      (zip idx (zip (shape t) paddings))
               then elems t (map (\<lambda>(i, (lo, hi)). i - lo) (zip idx paddings))
               else 0))
      else Inl ValueError)"

text \<open>\<open>array_ops.expand_dims\<close>: a new axis of size 1 at position \<open>axis\<close>.\<close>

definition expand_dims :: "'a tensor \<Rightarrow> nat \<Rightarrow> error + 'a tensor" where
  "expand_dims t axis =
     (if axis \<le> length (shape t)
      then Inr (Tensor (take axis (shape t) @ [1] @ drop axis (shape t))
                       (\<lambda>idx. elems t (take axis idx @ drop (Suc axis) idx)))
      else Inl ValueError)"

text \<open>
  \<open>array_ops.squeeze\<close> with a one-element axis list, the only form the layer uses: the axis
  must have size 1.
\<close>

definition squeeze :: "'a tensor \<Rightarrow> nat \<Rightarrow> error + 'a tensor" where
  "squeeze t axis =
     (if axis < length (shape t) \<and> shape t ! axis = 1
      then Inr (Tensor (take axis (shape t) @ drop (Suc axis) (shape t))
                       (\<lambda>idx. elems t (take axis idx @ [0] @ drop axis idx)))
      else Inl ValueError)"

text \<open>
  \<open>tf.tile\<close>: the tensor repeated \<open>multiples ! i\<close> times along axis \<open>i\<close>. The argument is
  optional because the layer passes \<open>self.bias\<close>, which is \<open>None\<close> when no bias was
  allocated; \<open>None\<close> cannot be converted to a tensor and the call raises.
\<close>

definition tile :: "'a tensor option \<Rightarrow> nat list \<Rightarrow> error + 'a tensor" where
  "tile input multiples =
     (case input of
        None \<Rightarrow> Inl ValueError
      | Some t \<Rightarrow>
          if length multiples = length (shape t)
          then Inr (Tensor (map (\<lambda>(d, m). d * m) (zip (shape t) multiples))
                           (\<lambda>idx. elems t (map (\<lambda>(i, d). i mod d) (zip idx (shape t)))))
          else Inl ValueError)"

text \<open>
  \<open>backend.bias_add\<close> for a rank-1 bias (the only rank a built layer holds): the bias is
  added along the channel axis, which is axis 1 for \<open>channels_first\<close> and the last axis
  otherwise, and its length must be the size of that axis.
\<close>

definition bias_add :: "'a::plus tensor \<Rightarrow> 'a tensor option \<Rightarrow> data_format \<Rightarrow> error + 'a tensor" where
  "bias_add x bias_kernel fmt =
     (case bias_kernel of
        None \<Rightarrow> Inl ValueError
      | Some b \<Rightarrow>
          (let axis = (case fmt of ChannelsFirst \<Rightarrow> 1 | ChannelsLast \<Rightarrow> length (shape x) - 1)
           in if length (shape b) = 1 \<and> axis < length (shape x) \<and> shape x ! axis = shape b ! 0
              then Inr (Tensor (shape x) (\<lambda>idx. elems x idx + elems b [idx ! axis]))
              else Inl ValueError))"

definition convert_data_format :: "data_format \<Rightarrow> conv_data_format" where
  "convert_data_format fmt = (case fmt of ChannelsLast \<Rightarrow> NHWC | ChannelsFirst \<Rightarrow> NCHW)"

text \<open>
  The output size of one spatial axis and the number of implicit zeros before it.
  \<open>VALID\<close>: no padding, \<open>floor((n - k) / s) + 1\<close> outputs, an error when the window does not
  fit (shape inference cannot subtract \<open>k\<close> from a smaller \<open>n\<close>; run eagerly, the kernel
  returns an empty tensor there instead of raising). \<open>SAME\<close>: \<open>ceil(n / s)\<close> outputs, padded by \<open>max((out - 1) * s + k - n, 0)\<close> zeros in
  total, the smaller half in front. No other padding string is accepted.
\<close>

definition windowed_output_size :: "padding \<Rightarrow> nat \<Rightarrow> nat \<Rightarrow> nat \<Rightarrow> error + nat \<times> nat" where
  "windowed_output_size p n k s =
     (if s = 0 then Inl ValueError
      else case p of
        Valid \<Rightarrow> if n < k then Inl ValueError else Inr ((n - k) div s + 1, 0)
      | Same \<Rightarrow>
          (let out = (n + s - 1) div s;
               pad_total = nat (max 0 ((int out - 1) * int s + int k - int n))
           in Inr (out, pad_total div 2))
      | Causal \<Rightarrow> Inl ValueError)"

text \<open>
  \<open>nn.depthwise_conv2d\<close>: input of rank 4, filter of shape
  \<open>[filter_height, filter_width, in_channels, channel_multiplier]\<close>, and
  \<open>output[b, i, j, k * channel_multiplier + q] =
     sum over di, dj of input[b, sh * i + di, sw * j + dj, k] * filter[di, dj, k, q]\<close>
  (axes permuted for \<open>NCHW\<close>), reading the implicit padding as zero.
\<close>

definition depthwise_conv2d ::
  "'a::semiring_0 tensor \<Rightarrow> 'a tensor \<Rightarrow> nat list \<Rightarrow> padding \<Rightarrow> conv_data_format \<Rightarrow> error + 'a tensor" where
  "depthwise_conv2d input filt strides4 p fmt =
     (if length (shape input) = 4 \<and> length (shape filt) = 4 \<and> length strides4 = 4
      then
        (let h_ax = (case fmt of NHWC \<Rightarrow> 1 | NCHW \<Rightarrow> 2);
             w_ax = (case fmt of NHWC \<Rightarrow> 2 | NCHW \<Rightarrow> 3);
             c_ax = (case fmt of NHWC \<Rightarrow> 3 | NCHW \<Rightarrow> 1);
             n = shape input ! 0; h = shape input ! h_ax; w = shape input ! w_ax;
             c = shape input ! c_ax;
             fh = shape filt ! 0; fw = shape filt ! 1; mult = shape filt ! 3;
             sh = strides4 ! h_ax; sw = strides4 ! w_ax
         in if shape filt ! 2 = c \<and> strides4 ! 0 = 1 \<and> strides4 ! c_ax = 1
            then
              bind_err (windowed_output_size p h fh sh) (\<lambda>(oh, pt).
              bind_err (windowed_output_size p w fw sw) (\<lambda>(ow, pl).
              Inr (Tensor
                (case fmt of NHWC \<Rightarrow> [n, oh, ow, c * mult] | NCHW \<Rightarrow> [n, c * mult, oh, ow])
                (\<lambda>idx.
                   let b = idx ! 0; i = idx ! h_ax; j = idx ! w_ax; ch = idx ! c_ax;
                       k = ch div mult; q = ch mod mult
                   in sum_list (map (\<lambda>di. sum_list (map (\<lambda>dj.
                        let r = i * sh + di; s = j * sw + dj
                        in if pt \<le> r \<and> r < pt + h \<and> pl \<le> s \<and> s < pl + w
                           then elems input (case fmt of NHWC \<Rightarrow> [b, r - pt, s - pl, k]
                                                       | NCHW \<Rightarrow> [b, k, r - pt, s - pl])
                                * elems filt [di, dj, k, q]
                           else 0) [0..<fw])) [0..<fh])))))
            else Inl ValueError)
      else Inl ValueError)"

text \<open>A function on cells applied to every cell of a tensor: an elementwise operation.\<close>

definition map_tensor :: "('a \<Rightarrow> 'b) \<Rightarrow> 'a tensor \<Rightarrow> 'b tensor" where
  "map_tensor f t = Tensor (shape t) (\<lambda>idx. f (elems t idx))"

section \<open>The layer\<close>

text \<open>
  An initializer is a name (what \<open>initializers.serialize\<close> returns) and the value it gives
  each cell of a new weight. Regularizers and constraints are opaque handles, kept by name.
  The activation is any function from tensors to tensors: \<open>call\<close> hands it the whole
  output tensor, so it need not act cell by cell (softmax normalises along the last axis).
\<close>

datatype 'a initializer = Initializer (init_name: string) (init_value: "nat list \<Rightarrow> 'a")

record 'a config =
  kernel_size :: "nat list"
  strides :: "nat list"
  padding :: padding
  common_kernel :: bool
  depth_multiplier :: nat
  data_format :: data_format
  activation :: "('a tensor \<Rightarrow> 'a tensor) option"
  use_bias :: bool
  depthwise_initializer :: "'a initializer"
  bias_initializer :: "'a initializer"
  depthwise_regularizer :: "string option"
  depthwise_constraint :: "string option"

definition normalize_tuple :: "nat \<Rightarrow> nat \<Rightarrow> nat list" where
  "normalize_tuple v n = replicate n v"

text \<open>
  \<open>DepthwiseConv1D.__init__\<close>: the base class stores \<open>kernel_size\<close> and \<open>strides\<close> as tuples
  of rank 1 and resolves a missing data format to \<open>channels_last\<close>. The dilation rate is
  not a parameter of this constructor and stays at the base class's default of 1.
\<close>

definition DepthwiseConv1D_init ::
  "nat \<Rightarrow> nat \<Rightarrow> padding \<Rightarrow> bool \<Rightarrow> nat \<Rightarrow> data_format option \<Rightarrow>
   ('a tensor \<Rightarrow> 'a tensor) option \<Rightarrow> bool \<Rightarrow>
   'a initializer \<Rightarrow> 'a initializer \<Rightarrow> string option \<Rightarrow> string option \<Rightarrow> 'a config" where
  "DepthwiseConv1D_init ksize strd pad_mode common mult fmt act ub dinit binit dreg dcon =
     \<lparr>kernel_size = normalize_tuple ksize 1,
      strides = normalize_tuple strd 1,
      padding = pad_mode,
      common_kernel = common,
      depth_multiplier = mult,
      data_format = (case fmt of None \<Rightarrow> ChannelsLast | Some f \<Rightarrow> f),
      activation = act,
      use_bias = ub,
      depthwise_initializer = dinit,
      bias_initializer = binit,
      depthwise_regularizer = dreg,
      depthwise_constraint = dcon\<rparr>"

text \<open>
  The state of a layer after \<open>build\<close>: the attributes \<open>build\<close> assigns. \<open>input_spec\<close> is
  \<open>InputSpec(ndim=3, axes={channel_axis: input_dim})\<close>.
\<close>

record 'a layer =
  config :: "'a config"
  channels :: nat
  depthwise_kernel :: "'a tensor"
  bias :: "'a tensor option"
  input_spec :: "nat \<times> int \<times> nat"
  built :: bool

definition get_channel_axis :: "'a config \<Rightarrow> int" where
  "get_channel_axis cfg = (if data_format cfg = ChannelsFirst then 1 else - 1)"

definition add_weight :: "nat list \<Rightarrow> 'a initializer \<Rightarrow> 'a tensor" where
  "add_weight shp ini = Tensor shp (init_value ini)"

text \<open>\<open>DepthwiseConv1D.build\<close>; a dimension of the input shape is \<open>None\<close> when unknown.\<close>

definition build :: "'a config \<Rightarrow> nat option list \<Rightarrow> error + 'a layer" where
  "build cfg input_shape =
     (if length input_shape \<noteq> 3 then Inl ValueError
      else
        (let channel_axis = get_channel_axis cfg
         in bind_err (py_index input_shape channel_axis) (\<lambda>dim.
            case dim of
              None \<Rightarrow> Inl ValueError
            | Some input_dim \<Rightarrow>
                (let kernel_dim = (if common_kernel cfg = True then 1 else input_dim);
                     depthwise_kernel_shape =
                       [kernel_size cfg ! 0, kernel_dim, depth_multiplier cfg]
                 in Inr \<lparr>config = cfg,
                         channels = input_dim,
                         depthwise_kernel =
                           add_weight depthwise_kernel_shape (depthwise_initializer cfg),
                         bias = (if use_bias cfg
                                 then Some (add_weight [kernel_dim * depth_multiplier cfg]
                                                       (bias_initializer cfg))
                                 else None),
                         input_spec = (3, channel_axis, input_dim),
                         built = True\<rparr>))))"

text \<open>
  \<open>Conv1D._compute_causal_padding\<close>: \<open>dilation_rate[0] * (kernel_size[0] - 1)\<close> zeros in
  front of the spatial axis and none behind it, with the dilation rate 1.
\<close>

definition compute_causal_padding :: "'a config \<Rightarrow> (nat \<times> nat) list" where
  "compute_causal_padding cfg =
     (let left_pad = 1 * (kernel_size cfg ! 0 - 1)
      in if data_format cfg = ChannelsLast
         then [(0, 0), (left_pad, 0), (0, 0)]
         else [(0, 0), (0, 0), (left_pad, 0)])"

text \<open>\<open>DepthwiseConv1D.call\<close>, statement by statement.\<close>

definition call :: "'a::semiring_0 layer \<Rightarrow> 'a tensor \<Rightarrow> error + 'a tensor" where
  "call self inputs =
     bind_err (if padding (config self) = Causal
               then pad inputs (compute_causal_padding (config self))
               else Inr inputs) (\<lambda>inputs1.
     let strides4 = (if data_format (config self) = ChannelsLast
                     then [1] @ (strides (config self) @ strides (config self)) @ [1]
                     else [1, 1] @ (strides (config self) @ strides (config self)));
         spatial_start_dim = (if data_format (config self) = ChannelsLast then 1 else 2)
     in
     bind_err (expand_dims inputs1 spatial_start_dim) (\<lambda>inputs2.
     bind_err (if common_kernel (config self) = True
               then bind_err (tile (Some (depthwise_kernel self)) [1, channels self, 1]) (\<lambda>k.
                    bind_err (tile (bias self) [channels self]) (\<lambda>b.
                    Inr (k, Some b)))
               else Inr (depthwise_kernel self, bias self)) (\<lambda>(dw_kernel0, bias_kernel).
     bind_err (expand_dims dw_kernel0 0) (\<lambda>dw_kernel.
     let op_padding = (if padding (config self) = Causal then Valid
                       else padding (config self))
     in
     bind_err (depthwise_conv2d inputs2 dw_kernel strides4 op_padding
                 (convert_data_format (data_format (config self)))) (\<lambda>outputs0.
     bind_err (squeeze outputs0 spatial_start_dim) (\<lambda>outputs1.
     bind_err (if use_bias (config self)
               then bias_add outputs1 bias_kernel (data_format (config self))
               else Inr outputs1) (\<lambda>outputs2.
     case activation (config self) of
       Some f \<Rightarrow> Inr (f outputs2)
     | None \<Rightarrow> Inr outputs2)))))))"

text \<open>
  What the framework does with \<open>input_spec\<close> when a built layer is applied to an input
  (\<open>Layer.__call__\<close>): the rank and the size of the recorded axis are checked, then \<open>call\<close>
  runs.
\<close>

definition assert_input_compatibility :: "nat \<times> int \<times> nat \<Rightarrow> 'a tensor \<Rightarrow> error + unit" where
  "assert_input_compatibility spec x =
     (case spec of (ndim, axis, sz) \<Rightarrow>
        if length (shape x) = ndim
        then bind_err (py_index (shape x) axis) (\<lambda>d. if d = sz then Inr () else Inl ValueError)
        else Inl ValueError)"

definition layer_call :: "'a::semiring_0 layer \<Rightarrow> 'a tensor \<Rightarrow> error + 'a tensor" where
  "layer_call self inputs =
     bind_err (assert_input_compatibility (input_spec self) inputs) (\<lambda>_. call self inputs)"

section \<open>Shape inference\<close>

text \<open>
  \<open>conv_utils.conv_output_length(input_length, filter_size, padding, stride, dilation=1)\<close>.
  Its first arithmetic step is \<open>filter_size - 1\<close> and its last is a floor division by
  \<open>stride\<close>; Python raises \<open>TypeError\<close> when a tuple meets an integer in either.
\<close>

definition conv_output_length ::
  "int option \<Rightarrow> pyval \<Rightarrow> padding \<Rightarrow> pyval \<Rightarrow> int \<Rightarrow> error + int option" where
  "conv_output_length input_length filter_size p stride dilation =
     (case input_length of
        None \<Rightarrow> Inr None
      | Some len \<Rightarrow>
          (case filter_size of
             PyTuple _ \<Rightarrow> Inl TypeError
           | PyInt k \<Rightarrow>
               (let dilated_filter_size = k + (k - 1) * (dilation - 1);
                    output_length = (case p of Same \<Rightarrow> len | Causal \<Rightarrow> len
                                     | Valid \<Rightarrow> len - dilated_filter_size + 1)
                in case stride of
                     PyTuple _ \<Rightarrow> Inl TypeError
                   | PyInt s \<Rightarrow> if s = 0 then Inl ZeroDivisionError
                                else Inr (Some ((output_length + s - 1) div s)))))"

text \<open>\<open>None * n\<close> raises \<open>TypeError\<close>.\<close>

definition py_mul :: "int option \<Rightarrow> int \<Rightarrow> error + int option" where
  "py_mul a n = (case a of None \<Rightarrow> Inl TypeError | Some v \<Rightarrow> Inr (Some (v * n)))"

text \<open>
  \<open>DepthwiseConv1D.compute_output_shape\<close>. The attributes \<open>self.kernel_size\<close> and
  \<open>self.strides\<close> are handed to \<open>conv_output_length\<close> as they are stored, as tuples.
\<close>

definition compute_output_shape :: "'a config \<Rightarrow> int option list \<Rightarrow> error + int option list" where
  "compute_output_shape cfg input_shape =
     bind_err (py_index input_shape (if data_format cfg = ChannelsFirst then 2 else 1)) (\<lambda>len.
     bind_err (py_index input_shape (if data_format cfg = ChannelsFirst then 1 else 2)) (\<lambda>ch.
     bind_err (py_mul ch (int (depth_multiplier cfg))) (\<lambda>out_filters.
     bind_err (conv_output_length len (PyTuple (map int (kernel_size cfg))) (padding cfg)
                 (PyTuple (map int (strides cfg))) 1) (\<lambda>length_new.
     bind_err (py_index input_shape 0) (\<lambda>batch.
     if data_format cfg = ChannelsFirst
     then Inr [batch, out_filters, length_new]
     else Inr [batch, length_new, out_filters])))))"

section \<open>Configuration serialization\<close>

text \<open>
  The names bound at module level in \<open>depthwiseconv1d.py\<close>: its imports and the class it
  defines. A global name that is not bound (and is no builtin) raises \<open>NameError\<close> when it is
  evaluated.
\<close>

definition module_globals :: "string list" where
  "module_globals =
     [''tf'', ''tensor_shape'', ''models'', ''layers'', ''initializers'', ''regularizers'',
      ''constraints'', ''Conv1D'', ''InputSpec'', ''conv_utils'', ''tf_utils'', ''backend'',
      ''array_ops'', ''nn'', ''nn_ops'', ''keras_export'', ''DepthwiseConv1D'']"

definition lookup_global :: "string \<Rightarrow> error + unit" where
  "lookup_global name = (if name \<in> set module_globals then Inr () else Inl NameError)"

datatype cfgval = CNone | CInt int | CStr string

definition dict_pop :: "(string \<times> cfgval) list \<Rightarrow> string \<Rightarrow> error + (string \<times> cfgval) list" where
  "dict_pop d k = (case map_of d k of None \<Rightarrow> Inl KeyError | Some _ \<Rightarrow> Inr (AList.delete k d))"

definition serialize :: "string option \<Rightarrow> cfgval" where
  "serialize h = (case h of None \<Rightarrow> CNone | Some name \<Rightarrow> CStr name)"

text \<open>
  \<open>DepthwiseConv1D.get_config\<close>. Its first statement evaluates the global name
  \<open>DepthwiseConv2D\<close>; \<open>super_config\<close> is what the base class's \<open>get_config\<close> would return.
\<close>

definition get_config :: "'a layer \<Rightarrow> (string \<times> cfgval) list \<Rightarrow> error + (string \<times> cfgval) list" where
  "get_config self super_config =
     bind_err (lookup_global ''DepthwiseConv2D'') (\<lambda>_.
     bind_err (dict_pop super_config ''filters'') (\<lambda>c1.
     bind_err (dict_pop c1 ''kernel_initializer'') (\<lambda>c2.
     bind_err (dict_pop c2 ''kernel_regularizer'') (\<lambda>c3.
     bind_err (dict_pop c3 ''kernel_constraint'') (\<lambda>c4.
     Inr (AList.update ''depthwise_constraint''
            (serialize (depthwise_constraint (config self)))
         (AList.update ''depthwise_regularizer''
            (serialize (depthwise_regularizer (config self)))
         (AList.update ''depthwise_initializer''
            (CStr (init_name (depthwise_initializer (config self))))
         (AList.update ''depth_multiplier''
            (CInt (int (depth_multiplier (config self)))) c4)))))))))"

section \<open>Vocabulary of the statements\<close>

text \<open>
  Cell \<open>(b, pos, ch)\<close> of a rank-3 tensor in the layer's layout, and the sizes of its
  spatial and channel axes.
\<close>

definition at3 :: "data_format \<Rightarrow> 'a tensor \<Rightarrow> nat \<Rightarrow> nat \<Rightarrow> nat \<Rightarrow> 'a" where
  "at3 fmt t b pos ch =
     elems t (case fmt of ChannelsLast \<Rightarrow> [b, pos, ch] | ChannelsFirst \<Rightarrow> [b, ch, pos])"

definition spatial_length :: "data_format \<Rightarrow> 'a tensor \<Rightarrow> nat" where
  "spatial_length fmt t = shape t ! (case fmt of ChannelsLast \<Rightarrow> 1 | ChannelsFirst \<Rightarrow> 2)"

definition channel_count :: "data_format \<Rightarrow> 'a tensor \<Rightarrow> nat" where
  "channel_count fmt t = shape t ! (case fmt of ChannelsLast \<Rightarrow> 2 | ChannelsFirst \<Rightarrow> 1)"

text \<open>
  A built operator: \<open>build\<close> has run on a configuration with positive kernel length, stride
  and depth multiplier, and the weights, whatever values training has given them since, have
  the shapes \<open>build\<close> allocated.
\<close>

definition built_operator :: "'a layer \<Rightarrow> bool" where
  "built_operator self \<longleftrightarrow>
     built self \<and>
     length (kernel_size (config self)) = 1 \<and> 0 < kernel_size (config self) ! 0 \<and>
     length (strides (config self)) = 1 \<and> 0 < strides (config self) ! 0 \<and>
     0 < depth_multiplier (config self) \<and>
     shape (depthwise_kernel self) =
       [kernel_size (config self) ! 0,
        if common_kernel (config self) then 1 else channels self,
        depth_multiplier (config self)] \<and>
     (case bias self of
        None \<Rightarrow> \<not> use_bias (config self)
      | Some b \<Rightarrow> use_bias (config self) \<and>
          shape b = [(if common_kernel (config self) then 1 else channels self)
                     * depth_multiplier (config self)]) \<and>
     input_spec self = (3, get_channel_axis (config self), channels self)"

text \<open>A conforming input: rank 3, with the channel count recorded at build time.\<close>

definition conforming :: "'a layer \<Rightarrow> 'a tensor \<Rightarrow> bool" where
  "conforming self x \<longleftrightarrow>
     length (shape x) = 3 \<and> channel_count (data_format (config self)) x = channels self"

text \<open>
  The padded input of the specification's formula: \<open>left_padding\<close> zeros in front of the
  spatial axis (none for \<open>valid\<close>, \<open>K - 1\<close> for \<open>causal\<close>, the smaller half of the total for
  \<open>same\<close>), zeros behind it as far as the windows reach.
\<close>

definition left_padding :: "'a config \<Rightarrow> nat \<Rightarrow> nat" where
  "left_padding cfg len =
     (case padding cfg of
        Valid \<Rightarrow> 0
      | Causal \<Rightarrow> kernel_size cfg ! 0 - 1
      | Same \<Rightarrow>
          nat (max 0 ((int ((len + strides cfg ! 0 - 1) div strides cfg ! 0) - 1)
                        * int (strides cfg ! 0) + int (kernel_size cfg ! 0) - int len)) div 2)"

definition input_padded :: "'a config \<Rightarrow> 'a::zero tensor \<Rightarrow> nat \<Rightarrow> nat \<Rightarrow> nat \<Rightarrow> 'a" where
  "input_padded cfg x b pos c =
     (let len = spatial_length (data_format cfg) x; p = left_padding cfg len
      in if p \<le> pos \<and> pos < p + len then at3 (data_format cfg) x b (pos - p) c else 0)"

text \<open>The number of output positions for an input of spatial length \<open>len\<close>.\<close>

definition new_length :: "'a config \<Rightarrow> nat \<Rightarrow> nat" where
  "new_length cfg len =
     (case padding cfg of
        Valid \<Rightarrow> (len - kernel_size cfg ! 0) div strides cfg ! 0 + 1
      | Causal \<Rightarrow> (len - 1) div strides cfg ! 0 + 1
      | Same \<Rightarrow> (len + strides cfg ! 0 - 1) div strides cfg ! 0)"

text \<open>
  The value the specification gives output cell \<open>(b, t, c * M + m)\<close> before the activation
  (\<open>pre_activation\<close>): the window sum over the stored kernel (channel 0 of it when the kernel
  is common), plus the bias entry of that output channel when a bias is used. After it
  (\<open>spec_output\<close>): the activation applied to that value alone, which is what an elementwise
  activation does; \<open>cell_fn\<close> reads the activation's action on one value off the scalar
  tensor, and an activation is elementwise when it is \<open>map_tensor\<close> of that action.
\<close>

definition window_sum :: "'a::semiring_0 layer \<Rightarrow> 'a tensor \<Rightarrow> nat \<Rightarrow> nat \<Rightarrow> nat \<Rightarrow> nat \<Rightarrow> 'a" where
  "window_sum self x b t c m =
     sum_list (map (\<lambda>k. input_padded (config self) x b (t * (strides (config self) ! 0) + k) c
                        * elems (depthwise_kernel self)
                            [k, if common_kernel (config self) then 0 else c, m])
                   [0..<kernel_size (config self) ! 0])"

definition bias_term :: "'a layer \<Rightarrow> nat \<Rightarrow> nat \<Rightarrow> 'a option" where
  "bias_term self c m =
     (case bias self of
        None \<Rightarrow> None
      | Some b \<Rightarrow> Some (elems b [if common_kernel (config self) then m
                                  else c * depth_multiplier (config self) + m]))"

definition pre_activation :: "'a::semiring_0 layer \<Rightarrow> 'a tensor \<Rightarrow> nat \<Rightarrow> nat \<Rightarrow> nat \<Rightarrow> nat \<Rightarrow> 'a" where
  "pre_activation self x b t c m =
     (let s = window_sum self x b t c m
      in case bias_term self c m of None \<Rightarrow> s | Some bv \<Rightarrow> s + bv)"

definition cell_fn :: "('a tensor \<Rightarrow> 'a tensor) \<Rightarrow> 'a \<Rightarrow> 'a" where
  "cell_fn f v = elems (f (Tensor [] (\<lambda>_. v))) []"

definition elementwise_activation :: "'a config \<Rightarrow> bool" where
  "elementwise_activation cfg \<longleftrightarrow>
     (case activation cfg of
        None \<Rightarrow> True
      | Some f \<Rightarrow> (\<forall>t. f t = map_tensor (cell_fn f) t))"

definition spec_output :: "'a::semiring_0 layer \<Rightarrow> 'a tensor \<Rightarrow> nat \<Rightarrow> nat \<Rightarrow> nat \<Rightarrow> nat \<Rightarrow> 'a" where
  "spec_output self x b t c m =
     (case activation (config self) of
        None \<Rightarrow> pre_activation self x b t c m
      | Some f \<Rightarrow> cell_fn f (pre_activation self x b t c m))"

text \<open>
  Auxiliary vocabulary for the proofs: cell \<open>(b, pos, ch)\<close> of the rank-4 tensor the layer
  hands to the convolution, the shapes of the rank-3 and rank-4 tensors in the layer's layout,
  the axis \<open>call\<close> expands and squeezes, the stride vector it builds, and the inputs on which
  \<open>call\<close> returns a tensor: conforming ones, on an operator that has a bias whenever its
  kernel is common, whose window fits.
\<close>

definition at4 :: "data_format \<Rightarrow> 'a tensor \<Rightarrow> nat \<Rightarrow> nat \<Rightarrow> nat \<Rightarrow> 'a" where
  "at4 fmt t b pos ch =
     elems t (case fmt of ChannelsLast \<Rightarrow> [b, 0, pos, ch] | ChannelsFirst \<Rightarrow> [b, ch, 0, pos])"

definition shape3 :: "data_format \<Rightarrow> nat \<Rightarrow> nat \<Rightarrow> nat \<Rightarrow> nat list" where
  "shape3 fmt n len c = (case fmt of ChannelsLast \<Rightarrow> [n, len, c] | ChannelsFirst \<Rightarrow> [n, c, len])"

definition shape4 :: "data_format \<Rightarrow> nat \<Rightarrow> nat \<Rightarrow> nat \<Rightarrow> nat list" where
  "shape4 fmt n len c = (case fmt of ChannelsLast \<Rightarrow> [n, 1, len, c] | ChannelsFirst \<Rightarrow> [n, c, 1, len])"

definition start_dim :: "data_format \<Rightarrow> nat" where
  "start_dim fmt = (if fmt = ChannelsLast then 1 else 2)"

definition conv_strides :: "data_format \<Rightarrow> nat \<Rightarrow> nat list" where
  "conv_strides fmt s = (if fmt = ChannelsLast then [1, s, s, 1] else [1, 1, s, s])"

definition call_ok :: "'a layer \<Rightarrow> 'a tensor \<Rightarrow> bool" where
  "call_ok self x \<longleftrightarrow>
     conforming self x \<and>
     (use_bias (config self) \<or> \<not> common_kernel (config self)) \<and>
     (case padding (config self) of
        Valid \<Rightarrow> kernel_size (config self) ! 0 \<le> spatial_length (data_format (config self)) x
      | Same \<Rightarrow> True
      | Causal \<Rightarrow> 0 < spatial_length (data_format (config self)) x)"

text \<open>
  The channel dimension of an input shape handed to \<open>build\<close>: axis 1 for
  \<open>channels_first\<close>, the last axis for \<open>channels_last\<close>.
\<close>

definition channel_dim :: "'a config \<Rightarrow> nat option list \<Rightarrow> nat option" where
  "channel_dim cfg input_shape =
     input_shape ! (case data_format cfg of ChannelsFirst \<Rightarrow> 1 | ChannelsLast \<Rightarrow> length input_shape - 1)"

text \<open>
  Two operators of one configuration whose kernels and biases agree on every cell that does
  not belong to channel \<open>c\<close>: the second is the first with only the kernel slice and the
  bias entries of channel \<open>c\<close> changed.
\<close>

definition same_outside_channel :: "nat \<Rightarrow> 'a layer \<Rightarrow> 'a layer \<Rightarrow> bool" where
  "same_outside_channel c self self' \<longleftrightarrow>
     config self' = config self \<and> channels self' = channels self \<and>
     (\<forall>k c' m. k < kernel_size (config self) ! 0 \<and> c' < channels self \<and>
                m < depth_multiplier (config self) \<and> c' \<noteq> c \<longrightarrow>
        elems (depthwise_kernel self') [k, c', m] = elems (depthwise_kernel self) [k, c', m]) \<and>
     (\<forall>i. i < channels self * depth_multiplier (config self) \<and>
           \<not> (c * depth_multiplier (config self) \<le> i
               \<and> i < (c + 1) * depth_multiplier (config self)) \<longrightarrow>
        map_option (\<lambda>b. elems b [i]) (bias self') = map_option (\<lambda>b. elems b [i]) (bias self))"


text \<open>
  The operator the specification compares a common-kernel operator with: the same
  configuration with \<open>common_kernel\<close> unset, the stored kernel \<open>W\<close> of shape \<open>(K, 1, M)\<close>
  replicated \<open>C_in\<close> times along the channel axis, and the stored bias of shape \<open>(M,)\<close>,
  if any, tiled \<open>C_in\<close> times.
\<close>

definition replicated_kernel :: "'a tensor \<Rightarrow> nat \<Rightarrow> 'a tensor" where
  "replicated_kernel w c_in =
     Tensor [shape w ! 0, c_in, shape w ! 2] (\<lambda>idx. elems w [idx ! 0, 0, idx ! 2])"

definition tiled_bias :: "'a tensor \<Rightarrow> nat \<Rightarrow> 'a tensor" where
  "tiled_bias b c_in = Tensor [c_in * shape b ! 0] (\<lambda>idx. elems b [idx ! 0 mod shape b ! 0])"

definition replicated_layer :: "'a layer \<Rightarrow> 'a layer" where
  "replicated_layer self =
     self\<lparr>config := (config self)\<lparr>common_kernel := False\<rparr>,
          depthwise_kernel := replicated_kernel (depthwise_kernel self) (channels self),
          bias := map_option (\<lambda>b. tiled_bias b (channels self)) (bias self)\<rparr>"

section \<open>Concrete operators and inputs\<close>

text \<open>
  Small operators over the integers on which the statements below are evaluated: weights
  initialised to one, biases to zero, three input channels unless said otherwise.
\<close>

definition ones_init :: "int initializer" where
  "ones_init = Initializer ''ones'' (\<lambda>_. 1)"

definition zeros_init :: "int initializer" where
  "zeros_init = Initializer ''zeros'' (\<lambda>_. 0)"

definition example_input :: "int tensor" where
  "example_input = Tensor [2, 10, 3] (\<lambda>_. 1)"

text \<open>\<open>DepthwiseConv1D(kernel_size=3, strides=s, padding=p)\<close>, built on \<open>(2, 10, 3)\<close>.\<close>

definition plain_config :: "nat \<Rightarrow> padding \<Rightarrow> int config" where
  "plain_config s p =
     DepthwiseConv1D_init 3 s p False 1 None None True ones_init zeros_init None None"

definition plain_layer :: "nat \<Rightarrow> padding \<Rightarrow> int layer" where
  "plain_layer s p =
     \<lparr>config = plain_config s p, channels = 3,
      depthwise_kernel = Tensor [3, 3, 1] (\<lambda>_. 1),
      bias = Some (Tensor [3] (\<lambda>_. 0)),
      input_spec = (3, - 1, 3), built = True\<rparr>"

text \<open>
  \<open>DepthwiseConv1D(kernel_size=3, padding=p, common_kernel=True, use_bias=False)\<close>, built
  on \<open>(2, 10, 3)\<close>.
\<close>

definition shared_nobias_config :: "padding \<Rightarrow> int config" where
  "shared_nobias_config p =
     DepthwiseConv1D_init 3 1 p True 1 None None False ones_init zeros_init None None"

definition shared_nobias_layer :: "padding \<Rightarrow> int layer" where
  "shared_nobias_layer p =
     \<lparr>config = shared_nobias_config p, channels = 3,
      depthwise_kernel = Tensor [3, 1, 1] (\<lambda>_. 1),
      bias = None,
      input_spec = (3, - 1, 3), built = True\<rparr>"

text \<open>An input with two channels, for an operator built on three.\<close>

definition narrow_input :: "int tensor" where
  "narrow_input = Tensor [2, 10, 2] (\<lambda>_. 1)"

text \<open>
  The operator \<open>plain_layer 1 Valid\<close> after its kernel slice and bias entry for channel 1
  have been changed.
\<close>

definition perturbed_layer :: "int layer" where
  "perturbed_layer =
     (plain_layer 1 Valid)
       \<lparr>depthwise_kernel := Tensor [3, 3, 1] (\<lambda>idx. if idx ! 1 = 1 then 5 else 1),
        bias := Some (Tensor [3] (\<lambda>idx. if idx ! 0 = 1 then 7 else 0))\<rparr>"


text \<open>
  An activation that is not elementwise: every cell becomes the sum of the cells along the
  last axis, the sum by which softmax divides. In the layout \<open>channels_last\<close> the last axis
  is the channel axis, in \<open>channels_first\<close> the spatial one.
\<close>

definition last_axis_sum :: "int tensor \<Rightarrow> int tensor" where
  "last_axis_sum t =
     Tensor (shape t)
       (\<lambda>idx. sum_list (map (\<lambda>j. elems t (butlast idx @ [j])) [0..<last (shape t)]))"

text \<open>
  \<open>DepthwiseConv1D(kernel_size=3, padding=p, data_format=fmt, activation=last_axis_sum)\<close>,
  built on three channels, and that operator in the layout \<open>channels_last\<close> with padding
  \<open>valid\<close> after its kernel slice and bias entry for channel 1 have been changed.
\<close>

definition summing_config :: "data_format \<Rightarrow> padding \<Rightarrow> int config" where
  "summing_config fmt p =
     DepthwiseConv1D_init 3 1 p False 1 (Some fmt) (Some last_axis_sum) True
       ones_init zeros_init None None"

definition summing_layer :: "data_format \<Rightarrow> padding \<Rightarrow> int layer" where
  "summing_layer fmt p =
     \<lparr>config = summing_config fmt p, channels = 3,
      depthwise_kernel = Tensor [3, 3, 1] (\<lambda>_. 1),
      bias = Some (Tensor [3] (\<lambda>_. 0)),
      input_spec = (3, if fmt = ChannelsFirst then 1 else - 1, 3), built = True\<rparr>"

definition perturbed_summing_layer :: "int layer" where
  "perturbed_summing_layer =
     (summing_layer ChannelsLast Valid)
       \<lparr>depthwise_kernel := Tensor [3, 3, 1] (\<lambda>idx. if idx ! 1 = 1 then 5 else 1),
        bias := Some (Tensor [3] (\<lambda>idx. if idx ! 0 = 1 then 7 else 0))\<rparr>"



section \<open>Basic facts\<close>

lemma bind_err_Inl [simp]: "bind_err (Inl e) f = Inl e"
  by (simp add: bind_err_def)

lemma bind_err_Inr [simp]: "bind_err (Inr v) f = f v"
  by (simp add: bind_err_def)

lemma len3: "length xs = 3 \<Longrightarrow> \<exists>a b c. xs = [a,b,c]"
  by (cases xs; simp; cases "tl xs"; simp; cases "tl (tl xs)"; auto)

lemma shape3_of:
  "length (shape x) = 3 \<Longrightarrow> shape x = shape3 fmt (shape x ! 0) (spatial_length fmt x) (channel_count fmt x)"
  by (auto dest!: len3 simp: shape3_def spatial_length_def channel_count_def split: data_format.splits)

lemma pad_causal:
  assumes "shape x = shape3 fmt n len c"
  shows "\<exists>y. pad x (if fmt = ChannelsLast then [(0, 0), (lp, 0), (0, 0)] else [(0, 0), (0, 0), (lp, 0)]) = Inr y
     \<and> shape y = shape3 fmt n (lp + len) c
     \<and> (\<forall>b pos ch. b < n \<and> ch < c \<and> pos < lp + len \<longrightarrow>
           at3 fmt y b pos ch = (if lp \<le> pos then at3 fmt x b (pos - lp) ch else 0))"
  using assms by (cases fmt) (auto simp: pad_def shape3_def at3_def)

lemma expand_input:
  assumes "shape x = shape3 fmt n len c"
  shows "\<exists>y. expand_dims x (start_dim fmt) = Inr y \<and> shape y = shape4 fmt n len c
     \<and> (\<forall>b pos ch. at4 fmt y b pos ch = at3 fmt x b pos ch)"
  using assms by (cases fmt) (auto simp: expand_dims_def shape3_def shape4_def at3_def at4_def start_dim_def eval_nat_numeral)

lemma tile_kernel:
  assumes "shape k = [K, 1, M]"
  shows "\<exists>y. tile (Some k) [1, C, 1] = Inr y \<and> shape y = [K, C, M]
     \<and> (\<forall>j c m. j < K \<and> m < M \<longrightarrow> elems y [j, c, m] = elems k [j, 0, m])"
  using assms by (auto simp: tile_def)

lemma tile_bias:
  assumes "shape b = [M]"
  shows "\<exists>y. tile (Some b) [C] = Inr y \<and> shape y = [M * C]
     \<and> (\<forall>c m. m < M \<longrightarrow> elems y [c * M + m] = elems b [m])"
  using assms by (auto simp: tile_def)

lemma expand_kernel:
  assumes "shape k = [K, C, M]"
  shows "\<exists>y. expand_dims k 0 = Inr y \<and> shape y = [1, K, C, M]
     \<and> (\<forall>j c m. elems y [0, j, c, m] = elems k [j, c, m])"
  using assms by (auto simp: expand_dims_def)

lemma wos_height: "0 < s \<Longrightarrow> p \<noteq> Causal \<Longrightarrow> windowed_output_size p 1 1 s = Inr (1, 0)"
  by (cases p) (auto simp: windowed_output_size_def)

lemma conv_core:
  fixes i2 :: "'a::semiring_0 tensor"
  assumes "shape i2 = shape4 fmt n len c" "shape k = [1, K, c, M]" "0 < s"
    "windowed_output_size p len K s = Inr (ow, pl)" "p \<noteq> Causal"
  shows "\<exists>y. depthwise_conv2d i2 k (conv_strides fmt s) p (convert_data_format fmt) = Inr y
     \<and> shape y = shape4 fmt n ow (c * M)
     \<and> (\<forall>b t ch. at4 fmt y b t ch =
          sum_list (map (\<lambda>dj. if pl \<le> t * s + dj \<and> t * s + dj < pl + len
                then at4 fmt i2 b (t * s + dj - pl) (ch div M) * elems k [0, dj, ch div M, ch mod M]
                else 0) [0..<K]))"
  using assms wos_height[OF assms(3,5)]
  by (cases fmt) (auto simp: depthwise_conv2d_def shape4_def at4_def conv_strides_def convert_data_format_def Let_def eval_nat_numeral cong: if_cong)

lemma squeeze_output:
  assumes "shape x = shape4 fmt n len c"
  shows "\<exists>y. squeeze x (start_dim fmt) = Inr y \<and> shape y = shape3 fmt n len c
     \<and> (\<forall>b pos ch. at3 fmt y b pos ch = at4 fmt x b pos ch)"
  using assms by (cases fmt) (auto simp: squeeze_def shape3_def shape4_def at3_def at4_def start_dim_def eval_nat_numeral)

lemma bias_add_output:
  assumes "shape x = shape3 fmt n len c" "shape b = [c]"
  shows "\<exists>y. bias_add x (Some b) fmt = Inr y \<and> shape y = shape3 fmt n len c
     \<and> (\<forall>i pos ch. at3 fmt y i pos ch = at3 fmt x i pos ch + elems b [ch])"
  using assms by (cases fmt) (auto simp: bias_add_def shape3_def at3_def eval_nat_numeral)

lemma sum_list_map_cong: "(\<And>k. k < n \<Longrightarrow> f k = g k) \<Longrightarrow> sum_list (map f [0..<n]) = sum_list (map g [0..<n])"
  by (rule arg_cong[where f=sum_list]) simp

lemma call_unfold:
  "call self x =
     bind_err (if padding (config self) = Causal
               then pad x (if data_format (config self) = ChannelsLast
                      then [(0, 0), (kernel_size (config self) ! 0 - 1, 0), (0, 0)]
                      else [(0, 0), (0, 0), (kernel_size (config self) ! 0 - 1, 0)])
               else Inr x) (\<lambda>inputs1.
     bind_err (expand_dims inputs1 (start_dim (data_format (config self)))) (\<lambda>inputs2.
     bind_err (if common_kernel (config self)
               then bind_err (tile (Some (depthwise_kernel self)) [1, channels self, 1]) (\<lambda>k.
                    bind_err (tile (bias self) [channels self]) (\<lambda>b.
                    Inr (k, Some b)))
               else Inr (depthwise_kernel self, bias self)) (\<lambda>(dw_kernel0, bias_kernel).
     bind_err (expand_dims dw_kernel0 0) (\<lambda>dw_kernel.
     bind_err (depthwise_conv2d inputs2 dw_kernel
                 (conv_strides (data_format (config self)) (strides (config self) ! 0))
                 (if padding (config self) = Causal then Valid else padding (config self))
                 (convert_data_format (data_format (config self)))) (\<lambda>outputs0.
     bind_err (squeeze outputs0 (start_dim (data_format (config self)))) (\<lambda>outputs1.
     bind_err (if use_bias (config self)
               then bias_add outputs1 bias_kernel (data_format (config self))
               else Inr outputs1) (\<lambda>outputs2.
     case activation (config self) of
       Some f \<Rightarrow> Inr (f outputs2)
     | None \<Rightarrow> Inr outputs2)))))))" if len: "length (strides (config self)) = 1"
proof -
  obtain s where s: "strides (config self) = [s]" using len
    by (auto simp: length_Suc_conv)
  show ?thesis
    by (simp add: call_def compute_causal_padding_def Let_def start_dim_def conv_strides_def s)
qed

lemma wos_width:
  assumes "built_operator self" "call_ok self x"
  shows "windowed_output_size
           (if padding (config self) = Causal then Valid else padding (config self))
           ((if padding (config self) = Causal then kernel_size (config self) ! 0 - 1 else 0)
              + spatial_length (data_format (config self)) x)
           (kernel_size (config self) ! 0) (strides (config self) ! 0)
         = Inr (new_length (config self) (spatial_length (data_format (config self)) x),
                left_padding (config self) (spatial_length (data_format (config self)) x)
                 - (if padding (config self) = Causal then kernel_size (config self) ! 0 - 1 else 0))"
  using assms
  by (cases "padding (config self)")
     (auto simp: windowed_output_size_def built_operator_def call_ok_def new_length_def
        left_padding_def Let_def)

lemma call_pre_activation:
  fixes self :: "'a::semiring_0 layer"
  assumes bo: "built_operator self" and ok: "call_ok self x"
  shows "\<exists>z. call self x = Inr (case activation (config self) of Some f \<Rightarrow> f z | None \<Rightarrow> z) \<and>
           shape z = shape3 (data_format (config self)) (shape x ! 0)
                       (new_length (config self) (spatial_length (data_format (config self)) x))
                       (channels self * depth_multiplier (config self)) \<and>
           (\<forall>b t c m. b < shape x ! 0 \<and> c < channels self \<and> m < depth_multiplier (config self) \<longrightarrow>
              at3 (data_format (config self)) z b t (c * depth_multiplier (config self) + m)
                = pre_activation self x b t c m)"
proof -
  define fmt where "fmt = data_format (config self)"
  define K where "K = kernel_size (config self) ! 0"
  define S where "S = strides (config self) ! 0"
  define M where "M = depth_multiplier (config self)"
  define C where "C = channels self"
  define n where "n = shape x ! 0"
  define L where "L = spatial_length fmt x"
  define lp where "lp = (if padding (config self) = Causal then K - 1 else 0)"
  define p' where "p' = (if padding (config self) = Causal then Valid else padding (config self))"
  define kc where "kc = (\<lambda>c::nat. if common_kernel (config self) then 0 else c)"
  note defs = fmt_def K_def S_def M_def C_def n_def L_def lp_def p'_def
  have pos: "0 < K" "0 < S" "0 < M" and lenS: "length (strides (config self)) = 1"
    and ks: "shape (depthwise_kernel self) = [K, if common_kernel (config self) then 1 else C, M]"
    using bo by (auto simp: built_operator_def defs)
  have sx: "shape x = shape3 fmt n L C"
    using ok shape3_of[of x fmt] by (simp add: call_ok_def conforming_def defs)
  obtain i1 where i1: "(if padding (config self) = Causal
               then pad x (if fmt = ChannelsLast
                      then [(0, 0), (K - 1, 0), (0, 0)]
                      else [(0, 0), (0, 0), (K - 1, 0)])
               else Inr x) = Inr i1"
     and si1: "shape i1 = shape3 fmt n (lp + L) C"
     and ci1: "\<And>b pos ch. b < n \<Longrightarrow> ch < C \<Longrightarrow> pos < lp + L \<Longrightarrow>
           at3 fmt i1 b pos ch = (if lp \<le> pos then at3 fmt x b (pos - lp) ch else 0)"
  proof (cases "padding (config self) = Causal")
    case True
    with pad_causal[OF sx, of "K - 1"] that show ?thesis by (auto simp: lp_def)
  next
    case False
    with sx that[of x] show ?thesis by (simp add: lp_def)
  qed
  obtain i2 where i2: "expand_dims i1 (start_dim fmt) = Inr i2"
     and si2: "shape i2 = shape4 fmt n (lp + L) C"
     and ci2: "\<And>b pos ch. at4 fmt i2 b pos ch = at3 fmt i1 b pos ch"
    using expand_input[OF si1] by blast
  obtain k0 bk where kb: "(if common_kernel (config self)
               then bind_err (tile (Some (depthwise_kernel self)) [1, C, 1]) (\<lambda>k.
                    bind_err (tile (bias self) [C]) (\<lambda>b.
                    Inr (k, Some b)))
               else Inr (depthwise_kernel self, bias self)) = Inr (k0, bk)"
     and sk0: "shape k0 = [K, C, M]"
     and ck0: "\<And>j c m. j < K \<Longrightarrow> m < M \<Longrightarrow> elems k0 [j, c, m] = elems (depthwise_kernel self) [j, kc c, m]"
     and bk: "use_bias (config self) \<Longrightarrow> \<exists>b bt. bias self = Some b \<and> bk = Some bt \<and> shape bt = [C * M] \<and>
                (\<forall>c m. m < M \<longrightarrow> elems bt [c * M + m]
                     = elems b [if common_kernel (config self) then m else c * M + m])"
  proof (cases "common_kernel (config self)")
    case True
    then have ub: "use_bias (config self)" using ok by (simp add: call_ok_def)
    then obtain b where b: "bias self = Some b" "shape b = [M]"
      using bo True by (auto simp: built_operator_def defs split: option.splits)
    from tile_kernel[of "depthwise_kernel self" K M C] ks True
    obtain kt where kt: "tile (Some (depthwise_kernel self)) [1, C, 1] = Inr kt" "shape kt = [K, C, M]"
       "\<And>j c m. j < K \<Longrightarrow> m < M \<Longrightarrow> elems kt [j, c, m] = elems (depthwise_kernel self) [j, 0, m]"
      by auto
    from tile_bias[OF b(2), of C]
    obtain bt where bt: "tile (Some b) [C] = Inr bt" "shape bt = [M * C]"
       "\<And>c m. m < M \<Longrightarrow> elems bt [c * M + m] = elems b [m]"
      by auto
    show ?thesis
      by (rule that[of kt "Some bt"]) (use True kt bt b in \<open>auto simp: kc_def mult.commute\<close>)
  next
    case False
    show ?thesis
    proof (rule that[of "depthwise_kernel self" "bias self"])
      show "use_bias (config self) \<Longrightarrow> \<exists>b bt. bias self = Some b \<and> bias self = Some bt \<and> shape bt = [C * M] \<and>
                (\<forall>c m. m < M \<longrightarrow> elems bt [c * M + m]
                     = elems b [if common_kernel (config self) then m else c * M + m])"
        using bo False by (auto simp: built_operator_def defs split: option.splits)
    qed (use False ks in \<open>auto simp: kc_def\<close>)
  qed
  obtain k where k: "expand_dims k0 0 = Inr k" and sk: "shape k = [1, K, C, M]"
     and ck: "\<And>j c m. elems k [0, j, c, m] = elems k0 [j, c, m]"
    using expand_kernel[OF sk0] by blast
  define ow where "ow = new_length (config self) L"
  define pl where "pl = left_padding (config self) L - lp"
  have wos: "windowed_output_size p' (lp + L) K S = Inr (ow, pl)"
    using wos_width[OF bo ok] by (auto simp: defs ow_def pl_def split: if_splits)
  have p': "p' \<noteq> Causal" by (simp add: p'_def)
  obtain o0 where o0: "depthwise_conv2d i2 k (conv_strides fmt S) p' (convert_data_format fmt) = Inr o0"
     and so0: "shape o0 = shape4 fmt n ow (C * M)"
     and co0: "\<And>b t ch. at4 fmt o0 b t ch =
          sum_list (map (\<lambda>dj. if pl \<le> t * S + dj \<and> t * S + dj < pl + (lp + L)
                then at4 fmt i2 b (t * S + dj - pl) (ch div M) * elems k [0, dj, ch div M, ch mod M]
                else 0) [0..<K])"
    using conv_core[OF si2 sk pos(2) wos p'] by blast
  obtain o1 where o1: "squeeze o0 (start_dim fmt) = Inr o1"
     and so1: "shape o1 = shape3 fmt n ow (C * M)"
     and co1: "\<And>b pos ch. at3 fmt o1 b pos ch = at4 fmt o0 b pos ch"
    using squeeze_output[OF so0] by blast
  have lpl: "left_padding (config self) L = pl + lp"
    by (cases "padding (config self)") (auto simp: pl_def lp_def left_padding_def K_def)
  have core: "at3 fmt o1 b t (c * M + m) = window_sum self x b t c m"
    if "b < n" "c < C" "m < M" for b t c m
  proof -
    have "at3 fmt o1 b t (c * M + m) =
          sum_list (map (\<lambda>dj. if pl \<le> t * S + dj \<and> t * S + dj < pl + (lp + L)
                then at4 fmt i2 b (t * S + dj - pl) c * elems k [0, dj, c, m]
                else 0) [0..<K])"
      using that pos by (simp add: co1 co0 cong: if_cong)
    also have "\<dots> = sum_list (map (\<lambda>j. input_padded (config self) x b (t * S + j) c
                        * elems (depthwise_kernel self) [j, kc c, m]) [0..<K])"
    proof (rule sum_list_map_cong)
      fix j assume "j < K"
      then show "(if pl \<le> t * S + j \<and> t * S + j < pl + (lp + L)
                then at4 fmt i2 b (t * S + j - pl) c * elems k [0, j, c, m] else 0)
           = input_padded (config self) x b (t * S + j) c * elems (depthwise_kernel self) [j, kc c, m]"
        using that ci1[of b c "t * S + j - pl"]
        by (auto simp: ci2 ck ck0 input_padded_def Let_def lpl fmt_def[symmetric] L_def[symmetric])
    qed
    finally show ?thesis by (simp add: window_sum_def kc_def defs)
  qed
  obtain o2 where o2: "(if use_bias (config self)
               then bias_add o1 bk fmt else Inr o1) = Inr o2"
     and so2: "shape o2 = shape3 fmt n ow (C * M)"
     and co2: "\<And>b t c m. b < n \<Longrightarrow> c < C \<Longrightarrow> m < M \<Longrightarrow> at3 fmt o2 b t (c * M + m) =
         (case bias_term self c m of None \<Rightarrow> window_sum self x b t c m
            | Some bv \<Rightarrow> window_sum self x b t c m + bv)"
  proof (cases "use_bias (config self)")
    case True
    from bk[OF True] obtain b bt where b: "bias self = Some b" "bk = Some bt" "shape bt = [C * M]"
       "\<And>c m. m < M \<Longrightarrow> elems bt [c * M + m]
                     = elems b [if common_kernel (config self) then m else c * M + m]"
      by auto
    from bias_add_output[OF so1 b(3)] obtain y where y: "bias_add o1 (Some bt) fmt = Inr y"
       "shape y = shape3 fmt n ow (C * M)"
       "\<And>i pos ch. at3 fmt y i pos ch = at3 fmt o1 i pos ch + elems bt [ch]"
      by auto
    show ?thesis
      by (rule that[of y]) (use True y b core in \<open>auto simp: bias_term_def M_def\<close>)
  next
    case False
    then have "bias self = None" using bo by (auto simp: built_operator_def split: option.splits)
    with False show ?thesis
      by (intro that[of o1]) (auto simp: so1 core bias_term_def)
  qed
  have "call self x = Inr (case activation (config self) of Some f \<Rightarrow> f o2 | None \<Rightarrow> o2)"
    unfolding call_unfold[OF lenS] defs[symmetric]
    unfolding i1 bind_err_Inr i2 kb prod.case k o0 o1 o2
    by (simp split: option.splits)
  moreover have "at3 fmt o2 b t (c * M + m) = pre_activation self x b t c m"
    if "b < n" "c < C" "m < M" for b t c m
    using co2[OF that] by (simp add: pre_activation_def Let_def)
  ultimately show ?thesis
    using so2 by (auto simp: defs ow_def)
qed

lemma call_returns:
  fixes self :: "'a::semiring_0 layer"
  assumes "built_operator self" and "call_ok self x"
  shows "\<exists>y. call self x = Inr y"
  using call_pre_activation[OF assms] by blast

lemma elementwise_map_tensor:
  "activation cfg = Some (map_tensor g) \<Longrightarrow> elementwise_activation cfg"
  by (simp add: elementwise_activation_def cell_fn_def map_tensor_def)

lemma call_cells:
  fixes self :: "'a::semiring_0 layer"
  assumes bo: "built_operator self" and ok: "call_ok self x"
    and ew: "elementwise_activation (config self)"
  shows "\<exists>y. call self x = Inr y \<and>
           shape y = shape3 (data_format (config self)) (shape x ! 0)
                       (new_length (config self) (spatial_length (data_format (config self)) x))
                       (channels self * depth_multiplier (config self)) \<and>
           (\<forall>b t c m. b < shape x ! 0 \<and> c < channels self \<and> m < depth_multiplier (config self) \<longrightarrow>
              at3 (data_format (config self)) y b t (c * depth_multiplier (config self) + m)
                = spec_output self x b t c m)"
proof -
  from call_pre_activation[OF bo ok] obtain z where
    z: "call self x = Inr (case activation (config self) of Some f \<Rightarrow> f z | None \<Rightarrow> z)"
    and sz: "shape z = shape3 (data_format (config self)) (shape x ! 0)
                       (new_length (config self) (spatial_length (data_format (config self)) x))
                       (channels self * depth_multiplier (config self))"
    and cz: "\<And>b t c m. b < shape x ! 0 \<Longrightarrow> c < channels self \<Longrightarrow> m < depth_multiplier (config self) \<Longrightarrow>
              at3 (data_format (config self)) z b t (c * depth_multiplier (config self) + m)
                = pre_activation self x b t c m"
    by blast
  show ?thesis
  proof (cases "activation (config self)")
    case None
    with z sz cz show ?thesis by (simp add: spec_output_def)
  next
    case (Some f)
    with ew have f: "f z = map_tensor (cell_fn f) z"
      by (simp add: elementwise_activation_def)
    from z Some f have "call self x = Inr (map_tensor (cell_fn f) z)" by simp
    moreover have "shape (map_tensor (cell_fn f) z) = shape z" by (simp add: map_tensor_def)
    moreover have "at3 (data_format (config self)) (map_tensor (cell_fn f) z) b t ch
                     = cell_fn f (at3 (data_format (config self)) z b t ch)" for b t ch
      by (simp add: map_tensor_def at3_def)
    ultimately show ?thesis
      using sz cz Some by (auto simp: spec_output_def)
  qed
qed

lemma bind_err_eq_Inr: "bind_err m f = Inr y \<longleftrightarrow> (\<exists>v. m = Inr v \<and> f v = Inr y)"
  by (cases m) auto

lemma conv_Inr_D:
  assumes "depthwise_conv2d i f (conv_strides fmt s) p (convert_data_format fmt) = Inr y"
  shows "length (shape i) = 4 \<and> length (shape f) = 4
      \<and> shape f ! 2 = shape i ! (case fmt of ChannelsLast \<Rightarrow> 3 | ChannelsFirst \<Rightarrow> 1)
      \<and> (\<exists>r. windowed_output_size p (shape i ! (case fmt of ChannelsLast \<Rightarrow> 2 | ChannelsFirst \<Rightarrow> 3))
                (shape f ! 1) s = Inr r)"
  using assms
  by (cases fmt)
     (auto simp: depthwise_conv2d_def convert_data_format_def conv_strides_def Let_def
        bind_err_eq_Inr eval_nat_numeral split: if_splits)

lemma expand_dims_Inr_D:
  "expand_dims t a = Inr y \<Longrightarrow> a \<le> length (shape t) \<and> shape y = take a (shape t) @ [1] @ drop a (shape t)"
  by (auto simp: expand_dims_def split: if_splits)

lemma pad_Inr_D: "pad t ps = Inr y \<Longrightarrow> length (shape y) = length (shape t)"
  by (auto simp: pad_def split: if_splits)

lemma call_Inr_ok:
  fixes self :: "'a::semiring_0 layer"
  assumes bo: "built_operator self" and c: "call self x = Inr y"
  shows "call_ok self x"
proof -
  define fmt where "fmt = data_format (config self)"
  define K where "K = kernel_size (config self) ! 0"
  define S where "S = strides (config self) ! 0"
  define M where "M = depth_multiplier (config self)"
  define C where "C = channels self"
  define lp where "lp = (if padding (config self) = Causal then K - 1 else 0)"
  define p' where "p' = (if padding (config self) = Causal then Valid else padding (config self))"
  note defs = fmt_def K_def S_def M_def C_def lp_def p'_def
  have pos: "0 < K" "0 < S" "0 < M" and lenS: "length (strides (config self)) = 1"
    and ks: "shape (depthwise_kernel self) = [K, if common_kernel (config self) then 1 else C, M]"
    using bo by (auto simp: built_operator_def defs)
  from c[unfolded call_unfold[OF lenS] defs[symmetric], unfolded bind_err_eq_Inr case_prod_beta]
  obtain i1 i2 kb k o0 where
    i1: "(if padding (config self) = Causal
               then pad x (if fmt = ChannelsLast
                      then [(0, 0), (K - 1, 0), (0, 0)]
                      else [(0, 0), (0, 0), (K - 1, 0)])
               else Inr x) = Inr i1"
    and i2: "expand_dims i1 (start_dim fmt) = Inr i2"
    and kb: "(if common_kernel (config self)
               then bind_err (tile (Some (depthwise_kernel self)) [1, C, 1]) (\<lambda>k.
                    bind_err (tile (bias self) [C]) (\<lambda>b.
                    Inr (k, Some b)))
               else Inr (depthwise_kernel self, bias self)) = Inr kb"
    and k: "expand_dims (fst kb) 0 = Inr k"
    and o0: "depthwise_conv2d i2 k (conv_strides fmt S) p' (convert_data_format fmt) = Inr o0"
    by blast
  note cv = conv_Inr_D[OF o0]
  have r1: "length (shape i1) = 3"
    using cv expand_dims_Inr_D[OF i2] by auto
  have rx: "length (shape x) = 3"
    using i1 r1 pad_Inr_D[of x _ i1] by (auto split: if_splits)
  define n where "n = shape x ! 0"
  define L where "L = spatial_length fmt x"
  define Cx where "Cx = channel_count fmt x"
  have sx: "shape x = shape3 fmt n L Cx"
    using shape3_of[OF rx, of fmt] by (simp add: n_def L_def Cx_def)
  have si1: "shape i1 = shape3 fmt n (lp + L) Cx"
  proof (cases "padding (config self) = Causal")
    case True
    with pad_causal[OF sx, of "K - 1"] i1 show ?thesis by (auto simp: lp_def)
  next
    case False
    with sx i1 show ?thesis by (simp add: lp_def)
  qed
  have si2: "shape i2 = shape4 fmt n (lp + L) Cx"
    using expand_input[OF si1] i2 by auto
  have ub: "use_bias (config self) \<or> \<not> common_kernel (config self)"
  proof (cases "common_kernel (config self)")
    case True
    with kb have "bias self \<noteq> None"
      by (auto simp: bind_err_eq_Inr tile_def split: option.splits)
    then show ?thesis using bo by (auto simp: built_operator_def split: option.splits)
  qed simp
  have sk0: "shape (fst kb) = [K, C, M]"
  proof (cases "common_kernel (config self)")
    case True
    with tile_kernel[of "depthwise_kernel self" K M C] ks kb show ?thesis
      by (auto simp: bind_err_eq_Inr)
  next
    case False
    with ks kb show ?thesis by auto
  qed
  have sk: "shape k = [1, K, C, M]"
    using expand_kernel[OF sk0] k by auto
  have ch: "Cx = C"
    using cv si2 sk by (cases fmt) (auto simp: shape4_def)
  obtain r where r: "windowed_output_size p' (lp + L) K S = Inr r"
    using cv si2 sk by (cases fmt) (auto simp: shape4_def)
  have win: "(case padding (config self) of Valid \<Rightarrow> K \<le> L | Same \<Rightarrow> True | Causal \<Rightarrow> 0 < L)"
    using r pos
    by (cases "padding (config self)")
       (auto simp: windowed_output_size_def p'_def lp_def split: if_splits)
  show ?thesis
    using rx ch ub win
    by (cases "padding (config self)") (simp_all add: call_ok_def conforming_def defs Cx_def L_def)
qed

lemma call_succeeds_iff:
  fixes self :: "'a::semiring_0 layer"
  assumes "built_operator self"
  shows "(\<exists>y. call self x = Inr y) \<longleftrightarrow> call_ok self x"
  using call_Inr_ok[OF assms] call_returns[OF assms] by blast

lemma plain_layer_built:
  "build (plain_config s p) [Some 2, Some 10, Some 3] = Inr (plain_layer s p)"
  by (simp add: build_def plain_config_def plain_layer_def DepthwiseConv1D_init_def
      get_channel_axis_def py_index_def add_weight_def ones_init_def zeros_init_def
      normalize_tuple_def)

lemma shared_nobias_layer_built:
  "build (shared_nobias_config p) [Some 2, Some 10, Some 3] = Inr (shared_nobias_layer p)"
  by (simp add: build_def shared_nobias_config_def shared_nobias_layer_def
      DepthwiseConv1D_init_def get_channel_axis_def py_index_def add_weight_def ones_init_def
      normalize_tuple_def)

lemma plain_layer_operator: "0 < s \<Longrightarrow> built_operator (plain_layer s p)"
  by (simp add: built_operator_def plain_layer_def plain_config_def DepthwiseConv1D_init_def
      get_channel_axis_def normalize_tuple_def)

lemma shared_nobias_layer_operator: "built_operator (shared_nobias_layer p)"
  by (simp add: built_operator_def shared_nobias_layer_def shared_nobias_config_def
      DepthwiseConv1D_init_def get_channel_axis_def normalize_tuple_def)

section \<open>Shape inference against the forward pass\<close>

text \<open>
  On integers \<open>conv_output_length\<close> computes the lengths the forward pass produces; on the
  tuples \<open>compute_output_shape\<close> hands it, it raises.
\<close>

lemma conv_output_length_on_integers:
  "conv_output_length (Some 10) (PyInt 3) Valid (PyInt 1) 1 = Inr (Some 8)"
  "conv_output_length (Some 10) (PyInt 3) Same (PyInt 1) 1 = Inr (Some 10)"
  "conv_output_length (Some 10) (PyInt 3) Valid (PyInt 2) 1 = Inr (Some 4)"
  "conv_output_length (Some 10) (PyTuple [3]) Valid (PyTuple [1]) 1 = Inl TypeError"
  by (simp_all add: conv_output_length_def)

lemma compute_output_shape_raises:
  "compute_output_shape cfg [Some n, Some len, Some c] = Inl TypeError"
  by (simp add: compute_output_shape_def py_index_def py_mul_def conv_output_length_def)

text \<open>
  C2. The claim is that \<open>compute_output_shape\<close> returns the shape of the tensor \<open>call\<close>
  produces. For kernel size 3, stride 1, padding \<open>valid\<close> and input shape \<open>(2, 10, 3)\<close> the
  forward pass produces a tensor of shape \<open>(2, 8, 3)\<close>, while \<open>compute_output_shape\<close> raises
  \<open>TypeError\<close>: it passes the tuples \<open>self.kernel_size\<close> and \<open>self.strides\<close> where
  \<open>build\<close> and \<open>call\<close> take their first component.
\<close>

theorem shape_inference_raises_where_forward_succeeds:
  "build (plain_config 1 Valid) [Some 2, Some 10, Some 3] = Inr (plain_layer 1 Valid) \<and>
   shape example_input = [2, 10, 3] \<and>
   compute_output_shape (plain_config 1 Valid) [Some 2, Some 10, Some 3] = Inl TypeError \<and>
   map_sum id shape (call (plain_layer 1 Valid) example_input) = Inr [2, 8, 3]"
proof -
  have "shape example_input = [2, 10, 3]"
    and "compute_output_shape (plain_config 1 Valid) [Some 2, Some 10, Some 3] = Inl TypeError"
    and "map_sum id shape (call (plain_layer 1 Valid) example_input) = Inr [2, 8, 3]"
    by code_simp+
  then show ?thesis by (simp add: plain_layer_built)
qed

section \<open>Configuration serialization fails\<close>

text \<open>
  C9. The claim is that \<open>get_config\<close> returns the configuration without the standard kernel
  fields. Its first statement is \<open>super(DepthwiseConv2D, self)\<close>, and \<open>DepthwiseConv2D\<close> is
  not a name of the module: every call raises \<open>NameError\<close> and returns no configuration.
\<close>

theorem get_config_raises_name_error: "get_config self super_config = Inl NameError"
  by (simp add: get_config_def lookup_global_def module_globals_def)

section \<open>A common kernel without a bias\<close>

text \<open>
  C10. For every operator built with \<open>common_kernel\<close> set and \<open>use_bias\<close> unset, every
  forward call raises instead of returning a tensor: no bias was allocated, and the
  common-kernel branch tiles \<open>self.bias\<close>, which is \<open>None\<close>.
\<close>

theorem common_kernel_without_bias_fails:
  fixes self :: "'a::semiring_0 layer"
  assumes "built_operator self" and "common_kernel (config self)"
    and "\<not> use_bias (config self)"
  shows "bias self = None \<and> tile (bias self) [channels self] = Inl ValueError \<and>
         isl (call self x)"
proof -
  have "bias self = None"
    using assms(1,3) by (auto simp: built_operator_def split: option.splits)
  moreover have "isl (call self x)"
    using call_Inr_ok[OF assms(1), of x] assms(2,3)
    by (cases "call self x") (auto simp: call_ok_def)
  ultimately show ?thesis by (simp add: tile_def)
qed

theorem common_kernel_without_bias_fails_witness:
  "built_operator (shared_nobias_layer Same) \<and>
   common_kernel (config (shared_nobias_layer Same)) \<and>
   \<not> use_bias (config (shared_nobias_layer Same)) \<and>
   bias (shared_nobias_layer Same) = None \<and>
   tile (bias (shared_nobias_layer Same)) [channels (shared_nobias_layer Same)]
     = (Inl ValueError :: error + int tensor) \<and>
   isl (call (shared_nobias_layer Same) example_input)"
proof -
  have a: "common_kernel (config (shared_nobias_layer Same))"
    and b: "\<not> use_bias (config (shared_nobias_layer Same))"
    by (simp_all add: shared_nobias_layer_def shared_nobias_config_def DepthwiseConv1D_init_def)
  from common_kernel_without_bias_fails[OF shared_nobias_layer_operator a b, of example_input]
  show ?thesis using shared_nobias_layer_operator a b by (simp add: tile_def)
qed

lemma bind_err_isl: "isl m \<Longrightarrow> isl (bind_err m f)"
  by (cases m) auto

section \<open>Build\<close>

text \<open>
  C7. \<open>build\<close> raises a shape error (\<open>ValueError\<close>) when the input shape does not have
  rank 3 or its channel dimension is unknown, and only then. Otherwise it returns the layer
  with \<open>channels\<close> set to the channel dimension \<open>c_in\<close>, a depthwise kernel of shape
  \<open>(K, kernel_dim, M)\<close> where \<open>kernel_dim\<close> is 1 for a common kernel and \<open>c_in\<close> otherwise,
  a bias of shape \<open>(kernel_dim * M,)\<close> exactly when \<open>use_bias\<close> is set, and \<open>built\<close> set.
\<close>

theorem build_spec:
  "(length input_shape \<noteq> 3 \<or> channel_dim cfg input_shape = None
      \<longrightarrow> build cfg input_shape = Inl ValueError) \<and>
   (length input_shape = 3 \<and> channel_dim cfg input_shape = Some c_in
      \<longrightarrow> (\<exists>self. build cfg input_shape = Inr self \<and>
             config self = cfg \<and> channels self = c_in \<and>
             shape (depthwise_kernel self) =
               [kernel_size cfg ! 0, if common_kernel cfg then 1 else c_in, depth_multiplier cfg] \<and>
             (use_bias cfg \<longrightarrow>
                (\<exists>b. bias self = Some b \<and>
                     shape b = [(if common_kernel cfg then 1 else c_in) * depth_multiplier cfg])) \<and>
             (\<not> use_bias cfg \<longrightarrow> bias self = None) \<and>
             built self))"
  by (cases "data_format cfg")
     (auto simp: build_def channel_dim_def get_channel_axis_def py_index_def add_weight_def
        Let_def dest!: len3)

theorem build_spec_witness:
  "build (plain_config 1 Valid) [Some 2, Some 10] = Inl ValueError \<and>
   build (plain_config 1 Valid) [Some 2, Some 10, None] = Inl ValueError \<and>
   (\<exists>self. build (plain_config 1 Valid) [Some 2, Some 10, Some 3] = Inr self \<and>
      config self = plain_config 1 Valid \<and> channels self = 3 \<and>
      shape (depthwise_kernel self) = [3, 3, 1] \<and>
      (\<exists>b. bias self = Some b \<and> shape b = [3]) \<and> built self)"
proof -
  have c: "data_format (plain_config s p) = ChannelsLast" "use_bias (plain_config s p)"
    "\<not> common_kernel (plain_config s p)" "kernel_size (plain_config s p) = [3]"
    "depth_multiplier (plain_config s p) = 1" for s p
    by (simp_all add: plain_config_def DepthwiseConv1D_init_def normalize_tuple_def)
  show ?thesis
    using build_spec[of "[Some 2, Some 10]" "plain_config 1 Valid" 0]
      build_spec[of "[Some 2, Some 10, None]" "plain_config 1 Valid" 0]
      build_spec[of "[Some 2, Some 10, Some 3]" "plain_config 1 Valid" 3]
    by (simp add: channel_dim_def c)
qed

section \<open>Channel mismatch at call time\<close>

text \<open>
  C8. For a built operator, a rank-3 input whose channel dimension differs from the channel
  count recorded by \<open>build\<close> is an error: the check of \<open>input_spec\<close> fails, so applying
  the layer fails, and \<open>call\<close> itself fails as well (the convolution rejects a kernel whose
  channel count is not the input's). No tensor is returned.
\<close>

theorem channel_mismatch_is_an_error:
  fixes self :: "'a::semiring_0 layer"
  assumes "built_operator self" and "length (shape x) = 3"
    and "channel_count (data_format (config self)) x \<noteq> channels self"
  shows "isl (assert_input_compatibility (input_spec self) x) \<and>
         isl (layer_call self x) \<and> isl (call self x)"
proof -
  have "isl (call self x)"
    using call_Inr_ok[OF assms(1), of x] assms(3)
    by (cases "call self x") (auto simp: call_ok_def conforming_def)
  moreover have "isl (assert_input_compatibility (input_spec self) x)"
    using assms
    by (cases "data_format (config self)")
       (auto simp: assert_input_compatibility_def built_operator_def get_channel_axis_def
          py_index_def channel_count_def dest!: len3)
  ultimately show ?thesis
    by (simp add: layer_call_def bind_err_isl)
qed

theorem channel_mismatch_is_an_error_witness:
  "built_operator (plain_layer 1 Valid) \<and> length (shape narrow_input) = 3 \<and>
   channel_count (data_format (config (plain_layer 1 Valid))) narrow_input
     \<noteq> channels (plain_layer 1 Valid) \<and>
   isl (assert_input_compatibility (input_spec (plain_layer 1 Valid)) narrow_input) \<and>
   isl (layer_call (plain_layer 1 Valid) narrow_input) \<and>
   isl (call (plain_layer 1 Valid) narrow_input)"
proof -
  have a: "built_operator (plain_layer 1 Valid)" by (simp add: plain_layer_operator)
  have b: "length (shape narrow_input) = 3" by (simp add: narrow_input_def)
  have c: "channel_count (data_format (config (plain_layer 1 Valid))) narrow_input
     \<noteq> channels (plain_layer 1 Valid)"
    by (simp add: narrow_input_def plain_layer_def plain_config_def DepthwiseConv1D_init_def
        channel_count_def)
  from channel_mismatch_is_an_error[OF a b c] a b c show ?thesis by simp
qed

section \<open>Consequences of the cell formula\<close>

lemma spec_output_cong:
  fixes self self' :: "'a::semiring_0 layer"
  assumes "activation (config self') = activation (config self)"
    and "kernel_size (config self') ! 0 = kernel_size (config self) ! 0"
    and "\<And>k. k < kernel_size (config self) ! 0 \<Longrightarrow>
           input_padded (config self') x' b (t * (strides (config self') ! 0) + k) c
             * elems (depthwise_kernel self') [k, if common_kernel (config self') then 0 else c, m]
         = input_padded (config self) x b (t * (strides (config self) ! 0) + k) c
             * elems (depthwise_kernel self) [k, if common_kernel (config self) then 0 else c, m]"
    and "bias_term self' c m = bias_term self c m"
  shows "spec_output self' x' b t c m = spec_output self x b t c m"
proof -
  have "window_sum self' x' b t c m = window_sum self x b t c m"
    unfolding window_sum_def assms(2) by (rule sum_list_map_cong) (rule assms(3))
  then have "pre_activation self' x' b t c m = pre_activation self x b t c m"
    by (simp add: pre_activation_def assms(4))
  then show ?thesis
    by (simp add: spec_output_def assms(1) split: option.splits)
qed

lemma channel_of_index:
  assumes "0 < (M::nat)" "\<not> (c * M \<le> ch \<and> ch < (c + 1) * M)"
  shows "ch div M \<noteq> c"
proof
  assume "ch div M = c"
  then have "c * M \<le> ch" "ch < (c + 1) * M"
    using assms(1) div_times_less_eq_dividend[of ch M] dividend_less_div_times[of M ch]
    by (auto simp: algebra_simps)
  with assms(2) show False by simp
qed

lemma call_Inr_cells:
  fixes self :: "'a::semiring_0 layer"
  assumes "built_operator self" "elementwise_activation (config self)" "call self x = Inr y"
  shows "call_ok self x"
    and "shape y = shape3 (data_format (config self)) (shape x ! 0)
                       (new_length (config self) (spatial_length (data_format (config self)) x))
                       (channels self * depth_multiplier (config self))"
    and "b < shape x ! 0 \<Longrightarrow> ch < channels self * depth_multiplier (config self) \<Longrightarrow>
           at3 (data_format (config self)) y b t ch
             = spec_output self x b t (ch div depth_multiplier (config self))
                 (ch mod depth_multiplier (config self))"
proof -
  show ok: "call_ok self x" by (rule call_Inr_ok[OF assms(1,3)])
  from call_cells[OF assms(1) ok assms(2)] assms(3)
  have sh: "shape y = shape3 (data_format (config self)) (shape x ! 0)
                       (new_length (config self) (spatial_length (data_format (config self)) x))
                       (channels self * depth_multiplier (config self))"
    and cells: "\<And>b t c m. b < shape x ! 0 \<Longrightarrow> c < channels self \<Longrightarrow> m < depth_multiplier (config self) \<Longrightarrow>
              at3 (data_format (config self)) y b t (c * depth_multiplier (config self) + m)
                = spec_output self x b t c m"
    by auto
  show "shape y = shape3 (data_format (config self)) (shape x ! 0)
                       (new_length (config self) (spatial_length (data_format (config self)) x))
                       (channels self * depth_multiplier (config self))" by (rule sh)
  assume b: "b < shape x ! 0" and ch: "ch < channels self * depth_multiplier (config self)"
  have M: "0 < depth_multiplier (config self)" using assms(1) by (simp add: built_operator_def)
  have "ch div depth_multiplier (config self) < channels self"
    using ch M by (simp add: less_mult_imp_div_less)
  from cells[OF b this, of "ch mod depth_multiplier (config self)" t] M
  show "at3 (data_format (config self)) y b t ch
             = spec_output self x b t (ch div depth_multiplier (config self))
                 (ch mod depth_multiplier (config self))"
    by simp
qed

lemma plain_config_simps:
  "kernel_size (plain_config s p) = [3]" "strides (plain_config s p) = [s]"
  "padding (plain_config s p) = p" "\<not> common_kernel (plain_config s p)"
  "depth_multiplier (plain_config s p) = 1" "data_format (plain_config s p) = ChannelsLast"
  "activation (plain_config s p) = None" "use_bias (plain_config s p)"
  by (simp_all add: plain_config_def DepthwiseConv1D_init_def normalize_tuple_def)

lemma perturbed_layer_operator: "built_operator perturbed_layer"
  by (simp add: built_operator_def perturbed_layer_def plain_layer_def plain_config_simps
      get_channel_axis_def)

lemma summing_config_simps:
  "kernel_size (summing_config fmt p) = [3]" "strides (summing_config fmt p) = [1]"
  "padding (summing_config fmt p) = p" "\<not> common_kernel (summing_config fmt p)"
  "depth_multiplier (summing_config fmt p) = 1" "data_format (summing_config fmt p) = fmt"
  "activation (summing_config fmt p) = Some last_axis_sum" "use_bias (summing_config fmt p)"
  by (simp_all add: summing_config_def DepthwiseConv1D_init_def normalize_tuple_def)

lemma summing_layer_built:
  "build (summing_config ChannelsLast p) [Some 2, Some 10, Some 3]
     = Inr (summing_layer ChannelsLast p)"
  by (simp add: build_def summing_layer_def summing_config_simps get_channel_axis_def
      py_index_def add_weight_def)
     (simp add: summing_config_def DepthwiseConv1D_init_def ones_init_def zeros_init_def)


lemma summing_layer_operator: "built_operator (summing_layer fmt p)"
  by (simp add: built_operator_def summing_layer_def summing_config_simps get_channel_axis_def)

lemma perturbed_summing_layer_operator: "built_operator perturbed_summing_layer"
  by (simp add: built_operator_def perturbed_summing_layer_def summing_layer_def
      summing_config_simps get_channel_axis_def)


section \<open>Channel independence\<close>

text \<open>
  C3 as stated: for every built operator whose kernel is not common, changing only the
  kernel slice and the bias entries of channel \<open>c\<close> leaves every output channel outside
  \<open>[c * M, (c + 1) * M)\<close> unchanged. \<open>call\<close> hands its whole output to the activation, and
  an activation that works along the channel axis mixes the channels again: with an
  activation that sums along the last axis, changing the kernel slice and bias entry of channel 1
  changes the output in channel 0 from 9 to 28.
\<close>

theorem channel_mixing_activation:
  "build (summing_config ChannelsLast Valid) [Some 2, Some 10, Some 3]
     = Inr (summing_layer ChannelsLast Valid) \<and>
   built_operator (summing_layer ChannelsLast Valid) \<and>
   built_operator perturbed_summing_layer \<and>
   \<not> common_kernel (config (summing_layer ChannelsLast Valid)) \<and>
   same_outside_channel 1 (summing_layer ChannelsLast Valid) perturbed_summing_layer \<and>
   map_sum id (\<lambda>y. at3 ChannelsLast y 0 0 0)
     (call (summing_layer ChannelsLast Valid) example_input) = Inr 9 \<and>
   map_sum id (\<lambda>y. at3 ChannelsLast y 0 0 0)
     (call perturbed_summing_layer example_input) = Inr 28"
proof -
  have "same_outside_channel 1 (summing_layer ChannelsLast Valid) perturbed_summing_layer"
    by (auto simp: same_outside_channel_def perturbed_summing_layer_def summing_layer_def
        summing_config_simps)
  moreover have "map_sum id (\<lambda>y. at3 ChannelsLast y 0 0 0)
     (call (summing_layer ChannelsLast Valid) example_input) = Inr 9"
    by code_simp
  moreover have "map_sum id (\<lambda>y. at3 ChannelsLast y 0 0 0)
     (call perturbed_summing_layer example_input) = Inr 28"
    by code_simp
  ultimately show ?thesis
    by (simp add: summing_layer_built summing_layer_operator perturbed_summing_layer_operator)
       (simp add: summing_layer_def summing_config_simps)
qed

text \<open>
  C3 as amended. For a built operator whose kernel is not common and whose activation is
  elementwise (or absent), changing only the kernel slice and the bias entries of channel
  \<open>c\<close> (the operator \<open>self'\<close> against \<open>self\<close>, equal on every other kernel and bias cell)
  leaves the forward pass failing or succeeding as before, leaves the output shape as it was,
  and leaves every output cell outside the output channels \<open>[c * M, (c + 1) * M)\<close> exactly
  as it was.
\<close>

theorem channel_independence:
  fixes self self' :: "'a::semiring_0 layer"
  assumes "built_operator self" and "built_operator self'"
    and "\<not> common_kernel (config self)"
    and "elementwise_activation (config self)"
    and "same_outside_channel c self self'"
  shows "(isl (call self' x) \<longleftrightarrow> isl (call self x)) \<and>
         (\<forall>y y'. call self x = Inr y \<and> call self' x = Inr y' \<longrightarrow>
            shape y' = shape y \<and>
            (\<forall>b t ch. b < shape x ! 0 \<and> ch < channels self * depth_multiplier (config self) \<and>
                 \<not> (c * depth_multiplier (config self) \<le> ch \<and> ch < (c + 1) * depth_multiplier (config self)) \<longrightarrow>
               at3 (data_format (config self)) y' b t ch = at3 (data_format (config self)) y b t ch))"
proof (intro conjI allI impI)
  have a4: "config self' = config self" and a5: "channels self' = channels self"
    using assms(5) by (simp_all add: same_outside_channel_def)
  have "call_ok self' x \<longleftrightarrow> call_ok self x"
    by (simp add: call_ok_def conforming_def a4 a5 cong: padding.case_cong)
  then have "(\<exists>y. call self' x = Inr y) \<longleftrightarrow> (\<exists>y. call self x = Inr y)"
    by (simp add: call_succeeds_iff assms(1,2))
  then show "isl (call self' x) \<longleftrightarrow> isl (call self x)"
    by (cases "call self x"; cases "call self' x") auto
next
  have a4: "config self' = config self" and a5: "channels self' = channels self"
    and a6: "\<forall>k c' m. k < kernel_size (config self) ! 0 \<and> c' < channels self \<and>
                  m < depth_multiplier (config self) \<and> c' \<noteq> c \<longrightarrow>
           elems (depthwise_kernel self') [k, c', m] = elems (depthwise_kernel self) [k, c', m]"
    and a7: "\<forall>i. i < channels self * depth_multiplier (config self) \<and>
             \<not> (c * depth_multiplier (config self) \<le> i \<and> i < (c + 1) * depth_multiplier (config self)) \<longrightarrow>
           map_option (\<lambda>b. elems b [i]) (bias self') = map_option (\<lambda>b. elems b [i]) (bias self)"
    using assms(5) by (simp_all add: same_outside_channel_def)
  have ew': "elementwise_activation (config self')" using assms(4) by (simp add: a4)
  fix y y' assume r: "call self x = Inr y \<and> call self' x = Inr y'"
  show "shape y' = shape y"
    using call_Inr_cells(2)[OF assms(1,4), of x y] call_Inr_cells(2)[OF assms(2) ew', of x y'] r
    by (simp add: a4 a5)
  fix b t ch
  assume h: "b < shape x ! 0 \<and> ch < channels self * depth_multiplier (config self) \<and>
                 \<not> (c * depth_multiplier (config self) \<le> ch \<and> ch < (c + 1) * depth_multiplier (config self))"
  define M where "M = depth_multiplier (config self)"
  have M: "0 < M" using assms(1) by (simp add: built_operator_def M_def)
  have ne: "ch div M \<noteq> c" using channel_of_index[OF M] h by (simp add: M_def)
  have idx: "ch div M * M + ch mod M = ch" by simp
  have bt: "bias_term self' (ch div M) (ch mod M) = bias_term self (ch div M) (ch mod M)"
    using a7[rule_format, of ch] h assms(3) a4 idx
    by (cases "bias self"; cases "bias self'") (auto simp: bias_term_def M_def)
  have cd: "ch div M < channels self"
    using h M by (simp add: M_def less_mult_imp_div_less)
  have md: "ch mod M < M" using M by simp
  have "spec_output self' x b t (ch div M) (ch mod M) = spec_output self x b t (ch div M) (ch mod M)"
  proof (rule spec_output_cong)
    fix k assume "k < kernel_size (config self) ! 0"
    with a6 cd md ne
    have "elems (depthwise_kernel self') [k, ch div M, ch mod M]
            = elems (depthwise_kernel self) [k, ch div M, ch mod M]"
      by (simp add: M_def)
    then show "input_padded (config self') x b (t * (strides (config self') ! 0) + k) (ch div M)
             * elems (depthwise_kernel self')
                 [k, if common_kernel (config self') then 0 else ch div M, ch mod M]
         = input_padded (config self) x b (t * (strides (config self) ! 0) + k) (ch div M)
             * elems (depthwise_kernel self)
                 [k, if common_kernel (config self) then 0 else ch div M, ch mod M]"
      using assms(3) a4 by simp
  qed (simp_all add: a4 bt)
  then show "at3 (data_format (config self)) y' b t ch = at3 (data_format (config self)) y b t ch"
    using call_Inr_cells(3)[OF assms(1,4), of x y b ch t]
      call_Inr_cells(3)[OF assms(2) ew', of x y' b ch t] r h
    by (simp add: a4 a5 M_def)
qed

theorem channel_independence_witness:
  "\<exists>y y'. call (plain_layer 1 Valid) example_input = Inr y \<and>
           call perturbed_layer example_input = Inr y' \<and>
           shape y' = shape y \<and>
           at3 ChannelsLast y' 0 0 0 = at3 ChannelsLast y 0 0 0 \<and>
           at3 ChannelsLast y' 1 4 2 = at3 ChannelsLast y 1 4 2"
proof -
  have "\<not> isl (call (plain_layer 1 Valid) example_input)"
    and "\<not> isl (call perturbed_layer example_input)"
    by code_simp+
  then obtain y y' where y: "call (plain_layer 1 Valid) example_input = Inr y"
    and y': "call perturbed_layer example_input = Inr y'"
    by (cases "call (plain_layer 1 Valid) example_input"; cases "call perturbed_layer example_input")
       auto
  have a: "built_operator (plain_layer 1 Valid)" by (simp add: plain_layer_operator)
  have c: "\<not> common_kernel (config (plain_layer 1 Valid))"
    by (simp add: plain_layer_def plain_config_simps)
  have d: "elementwise_activation (config (plain_layer 1 Valid))"
    by (simp add: elementwise_activation_def plain_layer_def plain_config_simps)
  have e: "same_outside_channel 1 (plain_layer 1 Valid) perturbed_layer"
    by (auto simp: same_outside_channel_def perturbed_layer_def plain_layer_def
        plain_config_simps)
  from channel_independence[OF a perturbed_layer_operator c d e, of example_input] y y'
  have "shape y' = shape y"
    and "\<And>b t ch. b < 2 \<Longrightarrow> ch < 3 \<Longrightarrow> ch \<noteq> 1 \<Longrightarrow>
            at3 ChannelsLast y' b t ch = at3 ChannelsLast y b t ch"
    by (auto simp: plain_layer_def plain_config_simps example_input_def)
  with y y' show ?thesis by simp
qed

section \<open>Causal padding\<close>




section \<open>The forward formula\<close>

lemma Inl_from_shape: "map_sum id shape r = Inl e \<Longrightarrow> r = Inl e"
  by (cases r) auto

text \<open>
  Lemma \<open>call_cells\<close> is the specification's formula for the forward pass: on a built
  operator that has a bias or does not share its kernel, and a conforming input whose window
  fits, \<open>call\<close> returns a tensor whose cell \<open>(b, t, c * M + m)\<close> is the window sum over the
  padded input plus the bias entry, under the activation when that is elementwise (lemma
  \<open>call_pre_activation\<close> gives the same cells for the tensor the activation receives,
  whatever the activation). Among the operators it leaves out are those of C10, and there
  \<open>call\<close> returns no tensor at all.

  C1. The claim is the formula for every built operator. On the operator with kernel size 3,
  padding \<open>valid\<close>, a common kernel and no bias, built by \<open>build\<close> on \<open>(2, 10, 3)\<close>, and
  the conforming input of ones, the formula gives cell \<open>(0, 0, 0)\<close> the value 3, and \<open>call\<close>
  raises \<open>ValueError\<close>.
\<close>

theorem forward_formula_fails_without_bias:
  "build (shared_nobias_config Valid) [Some 2, Some 10, Some 3] = Inr (shared_nobias_layer Valid) \<and>
   built_operator (shared_nobias_layer Valid) \<and>
   conforming (shared_nobias_layer Valid) example_input \<and>
   spec_output (shared_nobias_layer Valid) example_input 0 0 0 0 = 3 \<and>
   call (shared_nobias_layer Valid) example_input = Inl ValueError"
proof -
  have "conforming (shared_nobias_layer Valid) example_input"
    and "spec_output (shared_nobias_layer Valid) example_input 0 0 0 0 = 3"
    and "map_sum id shape (call (shared_nobias_layer Valid) example_input) = Inl ValueError"
    by code_simp+
  then show ?thesis
    by (simp add: shared_nobias_layer_built shared_nobias_layer_operator Inl_from_shape)
qed

section \<open>Common kernel against replicated kernel\<close>

text \<open>
  With a bias and an elementwise (or absent) activation, a common-kernel operator and the
  operator holding the replicated kernel and the tiled bias fail on the same inputs and
  return the same cells on the others.
\<close>

lemma replicated_layer_operator:
  assumes "built_operator self" "common_kernel (config self)"
  shows "built_operator (replicated_layer self)"
  using assms
  by (auto simp: built_operator_def replicated_layer_def replicated_kernel_def tiled_bias_def
      get_channel_axis_def mult.commute split: option.splits)

lemma common_kernel_equivalence:
  fixes self :: "'a::semiring_0 layer"
  assumes bo: "built_operator self" and ck: "common_kernel (config self)"
    and ub: "use_bias (config self)" and ew: "elementwise_activation (config self)"
  shows "(isl (call (replicated_layer self) x) \<longleftrightarrow> isl (call self x)) \<and>
         (\<forall>y y'. call self x = Inr y \<and> call (replicated_layer self) x = Inr y' \<longrightarrow>
            shape y' = shape y \<and>
            (\<forall>b t ch. b < shape x ! 0 \<and> ch < channels self * depth_multiplier (config self) \<longrightarrow>
               at3 (data_format (config self)) y' b t ch = at3 (data_format (config self)) y b t ch))"
proof (intro conjI allI impI)
  note bo' = replicated_layer_operator[OF bo ck]
  have cfg: "data_format (config (replicated_layer self)) = data_format (config self)"
    "padding (config (replicated_layer self)) = padding (config self)"
    "kernel_size (config (replicated_layer self)) = kernel_size (config self)"
    "strides (config (replicated_layer self)) = strides (config self)"
    "depth_multiplier (config (replicated_layer self)) = depth_multiplier (config self)"
    "activation (config (replicated_layer self)) = activation (config self)"
    "channels (replicated_layer self) = channels self"
    "\<not> common_kernel (config (replicated_layer self))"
    by (simp_all add: replicated_layer_def)
  have "call_ok (replicated_layer self) x \<longleftrightarrow> call_ok self x"
    by (simp add: call_ok_def conforming_def cfg ub cong: padding.case_cong)
  then have "(\<exists>y. call (replicated_layer self) x = Inr y) \<longleftrightarrow> (\<exists>y. call self x = Inr y)"
    by (simp add: call_succeeds_iff bo bo')
  then show "isl (call (replicated_layer self) x) \<longleftrightarrow> isl (call self x)"
    by (cases "call self x"; cases "call (replicated_layer self) x") auto
next
  note bo' = replicated_layer_operator[OF bo ck]
  have cfg: "data_format (config (replicated_layer self)) = data_format (config self)"
    "padding (config (replicated_layer self)) = padding (config self)"
    "kernel_size (config (replicated_layer self)) = kernel_size (config self)"
    "strides (config (replicated_layer self)) = strides (config self)"
    "depth_multiplier (config (replicated_layer self)) = depth_multiplier (config self)"
    "activation (config (replicated_layer self)) = activation (config self)"
    "channels (replicated_layer self) = channels self"
    "\<not> common_kernel (config (replicated_layer self))"
    by (simp_all add: replicated_layer_def)
  have ew': "elementwise_activation (config (replicated_layer self))"
    using ew by (simp add: elementwise_activation_def cfg)
  fix y y' assume r: "call self x = Inr y \<and> call (replicated_layer self) x = Inr y'"
  show "shape y' = shape y"
    using call_Inr_cells(2)[OF bo ew, of x y] call_Inr_cells(2)[OF bo' ew', of x y'] r
    by (simp add: cfg new_length_def cong: padding.case_cong)
  fix b t ch
  assume h: "b < shape x ! 0 \<and> ch < channels self * depth_multiplier (config self)"
  define M where "M = depth_multiplier (config self)"
  have M: "0 < M" using bo by (simp add: built_operator_def M_def)
  obtain bv where bv: "bias self = Some bv" "shape bv = [M]"
    using bo ck ub by (auto simp: built_operator_def M_def split: option.splits)
  have ip: "input_padded (config (replicated_layer self)) x b q c = input_padded (config self) x b q c"
    for q c
    by (simp add: input_padded_def left_padding_def Let_def cfg cong: padding.case_cong if_cong)
  have "spec_output (replicated_layer self) x b t (ch div M) (ch mod M)
          = spec_output self x b t (ch div M) (ch mod M)"
  proof (rule spec_output_cong)
    show "bias_term (replicated_layer self) (ch div M) (ch mod M) = bias_term self (ch div M) (ch mod M)"
      using bv M ck
      by (simp add: bias_term_def replicated_layer_def tiled_bias_def M_def[symmetric])
  qed (simp_all add: cfg ip ck, simp add: replicated_layer_def replicated_kernel_def)
  then show "at3 (data_format (config self)) y' b t ch = at3 (data_format (config self)) y b t ch"
    using call_Inr_cells(3)[OF bo ew, of x y b ch t]
      call_Inr_cells(3)[OF bo' ew', of x y' b ch t] r h
    by (simp add: cfg M_def)
qed

text \<open>
  C4. The claim is that equivalence with or without a bias. Without a bias the common-kernel
  operator raises on the example input, while the operator with the replicated kernel returns
  a tensor of shape \<open>(2, 8, 3)\<close> whose cell \<open>(0, 0, 0)\<close> is 3.
\<close>

theorem common_kernel_differs_from_replicated_without_bias:
  "built_operator (shared_nobias_layer Valid) \<and>
   isl (call (shared_nobias_layer Valid) example_input) \<and>
   map_sum id shape (call (replicated_layer (shared_nobias_layer Valid)) example_input)
     = Inr [2, 8, 3] \<and>
   map_sum id (\<lambda>y. at3 ChannelsLast y 0 0 0)
     (call (replicated_layer (shared_nobias_layer Valid)) example_input) = Inr 3"
proof -
  have "isl (call (shared_nobias_layer Valid) example_input)"
    and "map_sum id shape (call (replicated_layer (shared_nobias_layer Valid)) example_input)
     = Inr [2, 8, 3]"
    and "map_sum id (\<lambda>y. at3 ChannelsLast y 0 0 0)
     (call (replicated_layer (shared_nobias_layer Valid)) example_input) = Inr 3"
    by code_simp+
  then show ?thesis by (simp add: shared_nobias_layer_operator)
qed

section \<open>Output length under same padding\<close>

text \<open>
  With padding \<open>same\<close>, stride 1 and an elementwise (or absent) activation every tensor
  \<open>call\<close> returns has the spatial length of its input, and \<open>call\<close> returns a tensor on
  every conforming input when the operator has a bias or does not share its kernel.
\<close>

lemma shape3_axes:
  "spatial_length fmt (Tensor (shape3 fmt n len c) f) = len"
  "channel_count fmt (Tensor (shape3 fmt n len c) f) = c"
  by (cases fmt; simp add: spatial_length_def channel_count_def shape3_def)+

lemma spatial_length_shape3: "shape y = shape3 fmt n len c \<Longrightarrow> spatial_length fmt y = len"
  by (cases fmt) (simp_all add: spatial_length_def shape3_def)

lemma same_padding_length:
  fixes self :: "'a::semiring_0 layer"
  assumes "built_operator self" and "padding (config self) = Same"
    and "strides (config self) ! 0 = 1"
  shows "elementwise_activation (config self) \<Longrightarrow> call self x = Inr y \<Longrightarrow>
           spatial_length (data_format (config self)) y = spatial_length (data_format (config self)) x"
    and "conforming self x \<Longrightarrow> use_bias (config self) \<or> \<not> common_kernel (config self) \<Longrightarrow>
           \<exists>y. call self x = Inr y"
proof -
  show "spatial_length (data_format (config self)) y = spatial_length (data_format (config self)) x"
    if "elementwise_activation (config self)" "call self x = Inr y"
    using spatial_length_shape3[OF call_Inr_cells(2)[OF assms(1) that]] assms(2,3)
    by (simp add: new_length_def)
  show "\<exists>y. call self x = Inr y"
    if "conforming self x" "use_bias (config self) \<or> \<not> common_kernel (config self)"
    using that assms(2) by (simp add: call_succeeds_iff[OF assms(1)] call_ok_def)
qed

text \<open>
  C6. The claim is an output of spatial length \<open>L\<close> for every built operator with padding
  \<open>same\<close> and stride 1. The operator with a common kernel and no bias is one of them; on
  the conforming input of spatial length 10 \<open>call\<close> raises \<open>ValueError\<close> and there is no
  output.
\<close>

theorem same_padding_no_output_without_bias:
  "built_operator (shared_nobias_layer Same) \<and>
   padding (config (shared_nobias_layer Same)) = Same \<and>
   strides (config (shared_nobias_layer Same)) = [1] \<and>
   conforming (shared_nobias_layer Same) example_input \<and>
   spatial_length ChannelsLast example_input = 10 \<and>
   call (shared_nobias_layer Same) example_input = Inl ValueError"
proof -
  have "padding (config (shared_nobias_layer Same)) = Same"
    and "strides (config (shared_nobias_layer Same)) = [1]"
    and "conforming (shared_nobias_layer Same) example_input"
    and "spatial_length ChannelsLast example_input = 10"
    and "map_sum id shape (call (shared_nobias_layer Same) example_input) = Inl ValueError"
    by code_simp+
  then show ?thesis by (simp add: shared_nobias_layer_operator Inl_from_shape)
qed

end
